theory Spec2Isabelle
  imports Main "HOL-Library.Word"
begin

section \<open>JavaScript values\<close>

text \<open>
  The handlers of \<^verbatim>\<open>index.js\<close> and the store functions of \<^verbatim>\<open>firebase.js\<close> compute on
  untyped request fields: \<^verbatim>\<open>!userId\<close>, \<^verbatim>\<open>userData.credits || 0\<close>, \<^verbatim>\<open>price * 100\<close>,
  \<^verbatim>\<open>user.credits < 1\<close>. The scalar values a JSON body or a stored field can hold are
  modelled by \<open>jsval\<close>; arrays and nested objects as field values are not modelled.

  A number is an IEEE 754 double. \<open>JNum n\<close> is the double with the integer value \<open>n\<close>,
  \<open>JFrac m k\<close> the double \<open>m / 2 ^ k\<close> that is not an integer (\<open>m\<close> odd, \<open>k\<close> positive),
  \<open>JNegZero\<close> is \<^verbatim>\<open>-0\<close>, \<open>JInf False\<close> and \<open>JInf True\<close> are \<^verbatim>\<open>Infinity\<close> and \<^verbatim>\<open>-Infinity\<close>.
  Not every integer is a double (\<open>2 ^ 53 + 1\<close> is none): \<open>JNum n\<close> stands for a value of the
  program only when \<open>n\<close> is one, and likewise \<open>JFrac m k\<close>. The operations below return
  doubles, rounded to nearest with ties to even.

  Strings are lists of 8-bit characters, one per code unit of ASCII text; text outside
  ASCII is not modelled, except the two such characters in the instruction sent to the
  vision model, which are written as their UTF-8 bytes.
\<close>

datatype jsval = JUndefined | JNull | JBool bool | JNum int | JFrac int nat | JNegZero
  | JInf bool | JNaN | JStr string

fun truthy :: "jsval \<Rightarrow> bool" where
  "truthy JUndefined = False"
| "truthy JNull = False"
| "truthy (JBool b) = b"
| "truthy (JNum n) = (n \<noteq> 0)"
| "truthy (JFrac m k) = True"
| "truthy JNegZero = False"
| "truthy (JInf neg) = True"
| "truthy JNaN = False"
| "truthy (JStr s) = (s \<noteq> [])"

text \<open>\<^verbatim>\<open>a || b\<close>\<close>

definition js_or :: "jsval \<Rightarrow> jsval \<Rightarrow> jsval" where
  "js_or a b = (if truthy a then a else b)"

text \<open>\<^verbatim>\<open>typeof v === 'number'\<close>\<close>

fun is_number :: "jsval \<Rightarrow> bool" where
  "is_number (JNum n) = True"
| "is_number (JFrac m k) = True"
| "is_number JNegZero = True"
| "is_number (JInf neg) = True"
| "is_number JNaN = True"
| "is_number _ = False"

definition digit_char :: "nat \<Rightarrow> char" where
  "digit_char d = ''0123456789'' ! d"

fun show_nat :: "nat \<Rightarrow> string" where
  "show_nat n = (if n < 10 then [digit_char n] else show_nat (n div 10) @ [digit_char (n mod 10)])"

declare show_nat.simps [simp del]

definition show_int :: "int \<Rightarrow> string" where
  "show_int i = (if i < 0 then CHR ''-'' # show_nat (nat (- i)) else show_nat (nat i))"

subsection \<open>Doubles\<close>

text \<open>The number of binary digits of a natural number.\<close>

fun bitlen :: "nat \<Rightarrow> nat" where
  "bitlen n = (if n = 0 then 0 else Suc (bitlen (n div 2)))"

declare bitlen.simps [simp del]

text \<open>\<open>a / 2 ^ k\<close> in lowest terms.\<close>

fun strip :: "nat \<Rightarrow> nat \<Rightarrow> nat \<times> nat" where
  "strip a 0 = (a, 0)"
| "strip a (Suc k) = (if even a then strip (a div 2) k else (a, Suc k))"

definition signed :: "bool \<Rightarrow> nat \<Rightarrow> int" where
  "signed neg a = (if neg then - int a else int a)"

definition js_zero :: "bool \<Rightarrow> jsval" where
  "js_zero neg = (if neg then JNegZero else JNum 0)"

text \<open>The value \<open>\<plusminus> a * 2 ^ e\<close>, for a positive \<open>a\<close>, as a \<open>jsval\<close>.\<close>

definition canon :: "bool \<Rightarrow> nat \<Rightarrow> int \<Rightarrow> jsval" where
  "canon neg a e =
     (if 0 \<le> e then JNum (signed neg (a * 2 ^ nat e))
      else (case strip a (nat (- e)) of
              (a', k) \<Rightarrow> if k = 0 then JNum (signed neg a') else JFrac (signed neg a') k))"

text \<open>The same with the two ends of the range: a signed zero, and infinity from \<open>2 ^ 1024\<close> on.\<close>

definition finite_num :: "bool \<Rightarrow> nat \<Rightarrow> int \<Rightarrow> jsval" where
  "finite_num neg a e =
     (if a = 0 then js_zero neg
      else if 1024 < e + int (bitlen a) then JInf neg
      else canon neg a e)"

text \<open>
  The double nearest to \<open>\<plusminus> a * 2 ^ e\<close>: the value itself when it has at most 53 binary
  digits above the exponent \<open>-1074\<close>, and else the value cut at the exponent \<open>q\<close> of its
  53rd digit (or at \<open>-1074\<close>), rounded up when the rest is more than half a unit, or is
  half a unit and the cut value is odd.
\<close>

definition round_dyadic :: "bool \<Rightarrow> nat \<Rightarrow> int \<Rightarrow> jsval" where
  "round_dyadic neg a e =
     (let q = max (e + int (bitlen a) - 53) (- 1074)
      in if q \<le> e then finite_num neg a e
         else (let sh = nat (q - e);
                   t = a div 2 ^ sh;
                   r = a mod 2 ^ sh;
                   half = 2 ^ (sh - 1)
               in finite_num neg (if half < r \<or> (r = half \<and> odd t) then Suc t else t) q))"

text \<open>Sign, magnitude and binary exponent of a finite number.\<close>

fun parts :: "jsval \<Rightarrow> (bool \<times> nat \<times> int) option" where
  "parts (JNum n) = Some (n < 0, nat \<bar>n\<bar>, 0)"
| "parts (JFrac m k) = Some (m < 0, nat \<bar>m\<bar>, - int k)"
| "parts JNegZero = Some (True, 0, 0)"
| "parts _ = None"

text \<open>
  Addition of two numbers. NaN gives NaN, as do the two infinities together. Adding a
  zero gives the other operand; two zeros give \<^verbatim>\<open>-0\<close> only when both are; opposite
  numbers give \<^verbatim>\<open>+0\<close>.
\<close>

fun inf_sign :: "jsval \<Rightarrow> bool option" where
  "inf_sign (JInf neg) = Some neg"
| "inf_sign _ = None"

definition num_add :: "jsval \<Rightarrow> jsval \<Rightarrow> jsval" where
  "num_add x y =
     (case (inf_sign x, inf_sign y) of
        (Some a, Some b) \<Rightarrow> if a = b then JInf a else JNaN
      | (Some a, None) \<Rightarrow> if y = JNaN then JNaN else JInf a
      | (None, Some b) \<Rightarrow> if x = JNaN then JNaN else JInf b
      | (None, None) \<Rightarrow>
          (case (parts x, parts y) of
             (Some (n1, a1, e1), Some (n2, a2, e2)) \<Rightarrow>
               if a1 = 0 \<and> a2 = 0 then js_zero (n1 \<and> n2)
               else if a1 = 0 then y
               else if a2 = 0 then x
               else (let e = min e1 e2;
                         v = signed n1 (a1 * 2 ^ nat (e1 - e)) + signed n2 (a2 * 2 ^ nat (e2 - e))
                     in if v = 0 then JNum 0 else round_dyadic (v < 0) (nat \<bar>v\<bar>) e)
           | _ \<Rightarrow> JNaN))"

text \<open>Multiplication of two numbers; infinity times zero is NaN.\<close>

definition num_mul :: "jsval \<Rightarrow> jsval \<Rightarrow> jsval" where
  "num_mul x y =
     (case (inf_sign x, inf_sign y) of
        (Some a, Some b) \<Rightarrow> JInf (a \<noteq> b)
      | (Some a, None) \<Rightarrow>
          (case parts y of Some (n, m, e) \<Rightarrow> if m = 0 then JNaN else JInf (a \<noteq> n) | None \<Rightarrow> JNaN)
      | (None, Some b) \<Rightarrow>
          (case parts x of Some (n, m, e) \<Rightarrow> if m = 0 then JNaN else JInf (n \<noteq> b) | None \<Rightarrow> JNaN)
      | (None, None) \<Rightarrow>
          (case (parts x, parts y) of
             (Some (n1, a1, e1), Some (n2, a2, e2)) \<Rightarrow> round_dyadic (n1 \<noteq> n2) (a1 * a2) (e1 + e2)
           | _ \<Rightarrow> JNaN))"

subsection \<open>Numbers as strings\<close>

text \<open>
  Number::toString of the language: the shortest decimal digits \<open>s\<close> (\<open>k\<close> of them) and the
  decimal exponent \<open>n\<close> such that \<open>s * 10 ^ (n - k)\<close> rounds to the number, the closest to
  it when there are two. \<open>round_rat p q\<close> is the double nearest to \<open>p / q\<close>.
\<close>

definition round_rat :: "nat \<Rightarrow> nat \<Rightarrow> jsval" where
  "round_rat p q =
     (let t0 = int (bitlen p) - int (bitlen q);
          t = (if (if 0 \<le> t0 then q * 2 ^ nat t0 \<le> p else q \<le> p * 2 ^ nat (- t0))
               then t0 else t0 - 1);
          E = max (t - 52) (- 1074);
          num = (if 0 \<le> E then p else p * 2 ^ nat (- E));
          den = (if 0 \<le> E then q * 2 ^ nat E else q);
          M = num div den;
          r = num mod den
      in finite_num False (if den < 2 * r \<or> (2 * r = den \<and> odd M) then Suc M else M) E)"

text \<open>The least \<open>j\<close> from the given one with \<open>1 \<le> P / Q * 10 ^ j\<close>, tried \<open>f\<close> times.\<close>

fun first_ge :: "nat \<Rightarrow> nat \<Rightarrow> nat \<Rightarrow> nat \<Rightarrow> nat" where
  "first_ge 0 j P Q = j"
| "first_ge (Suc f) j P Q = (if Q \<le> P * 10 ^ j then j else first_ge f (Suc j) P Q)"

text \<open>The \<open>n\<close> with \<open>10 ^ (n - 1) \<le> P / Q < 10 ^ n\<close>.\<close>

definition dec_exp :: "nat \<Rightarrow> nat \<Rightarrow> int" where
  "dec_exp P Q = (if Q \<le> P then int (length (show_nat (P div Q)))
                  else 1 - int (first_ge 400 1 P Q))"

definition rounds_to :: "nat \<Rightarrow> int \<Rightarrow> nat \<Rightarrow> jsval \<Rightarrow> bool" where
  "rounds_to s n k x =
     (let ex = n - int k
      in (if 0 \<le> ex then round_rat (s * 10 ^ nat ex) 1 else round_rat s (10 ^ nat (- ex))) = x)"

text \<open>
  The digits, tried with \<open>k\<close> digits and then with more (17 always do): the two \<open>k\<close>-digit
  numbers around \<open>P / Q\<close>.
\<close>

fun shortest :: "nat \<Rightarrow> nat \<Rightarrow> int \<Rightarrow> nat \<Rightarrow> nat \<Rightarrow> jsval \<Rightarrow> nat \<times> int" where
  "shortest f k n0 P Q x =
     (let d = int k - n0;
          num = (if 0 \<le> d then P * 10 ^ nat d else P);
          den = (if 0 \<le> d then Q else Q * 10 ^ nat (- d));
          lo = num div den;
          r = num mod den;
          up = (if Suc lo = 10 ^ k then (10 ^ (k - 1), n0 + 1) else (Suc lo, n0));
          ok1 = rounds_to lo n0 k x;
          ok2 = rounds_to (fst up) (snd up) k x
      in case f of
           0 \<Rightarrow> (lo, n0)
         | Suc f' \<Rightarrow>
             if ok1 \<and> ok2 then (if 2 * r < den \<or> (2 * r = den \<and> even lo) then (lo, n0) else up)
             else if ok1 then (lo, n0)
             else if ok2 then up
             else shortest f' (Suc k) n0 P Q x)"

declare shortest.simps [simp del]

definition format_number :: "nat \<Rightarrow> int \<Rightarrow> string" where
  "format_number s n =
     (let ds = show_nat s; k = int (length ds)
      in if k \<le> n \<and> n \<le> 21 then ds @ replicate (nat (n - k)) CHR ''0''
         else if 0 < n \<and> n \<le> 21 then take (nat n) ds @ ''.'' @ drop (nat n) ds
         else if - 6 < n \<and> n \<le> 0 then ''0.'' @ replicate (nat (- n)) CHR ''0'' @ ds
         else (let e = n - 1;
                   ex = (if e < 0 then ''-'' else ''+'') @ show_nat (nat \<bar>e\<bar>)
               in if k = 1 then ds @ ''e'' @ ex
                  else take 1 ds @ ''.'' @ drop 1 ds @ ''e'' @ ex))"

definition positive_to_string :: "nat \<Rightarrow> nat \<Rightarrow> string" where
  "positive_to_string P Q =
     (case shortest 17 1 (dec_exp P Q) P Q (round_rat P Q) of (s, n) \<Rightarrow> format_number s n)"

text \<open>An integer below \<open>2 ^ 53\<close> in magnitude has its own decimal digits as shortest digits.\<close>

fun number_to_string :: "jsval \<Rightarrow> string" where
  "number_to_string (JNum n) =
     (if \<bar>n\<bar> < 2 ^ 53 then show_int n
      else (if n < 0 then ''-'' else []) @ positive_to_string (nat \<bar>n\<bar>) 1)"
| "number_to_string (JFrac m k) = (if m < 0 then ''-'' else []) @ positive_to_string (nat \<bar>m\<bar>) (2 ^ k)"
| "number_to_string JNegZero = ''0''"
| "number_to_string (JInf neg) = (if neg then ''-Infinity'' else ''Infinity'')"
| "number_to_string _ = ''NaN''"

subsection \<open>Conversions and operators\<close>

text \<open>ToString, as a template literal \<^verbatim>\<open>`${v}`\<close> applies it.\<close>

fun to_string :: "jsval \<Rightarrow> string" where
  "to_string JUndefined = ''undefined''"
| "to_string JNull = ''null''"
| "to_string (JBool b) = (if b then ''true'' else ''false'')"
| "to_string (JStr s) = s"
| "to_string v = number_to_string v"

text \<open>
  ToNumber. What the engine reads out of a string (\<^verbatim>\<open>"5"\<close>, \<^verbatim>\<open>" 0x10 "\<close>, \<^verbatim>\<open>"abc"\<close>) is
  the engine's StringToNumber, taken as the parameter \<open>str_num\<close>.
\<close>

fun to_number :: "(string \<Rightarrow> jsval) \<Rightarrow> jsval \<Rightarrow> jsval" where
  "to_number str_num JUndefined = JNaN"
| "to_number str_num JNull = JNum 0"
| "to_number str_num (JBool b) = JNum (if b then 1 else 0)"
| "to_number str_num (JStr s) = str_num s"
| "to_number str_num v = v"

text \<open>
  \<^verbatim>\<open>a + b\<close>: concatenation as soon as one operand is a string, addition of the operands'
  numbers otherwise (no string reaches ToNumber here).
\<close>

definition js_add :: "jsval \<Rightarrow> jsval \<Rightarrow> jsval" where
  "js_add a b =
     (case a of
        JStr x \<Rightarrow> JStr (x @ to_string b)
      | _ \<Rightarrow> (case b of
                JStr y \<Rightarrow> JStr (to_string a @ y)
              | _ \<Rightarrow> num_add (to_number (\<lambda>_. JNaN) a) (to_number (\<lambda>_. JNaN) b)))"

text \<open>\<^verbatim>\<open>a * b\<close>\<close>

definition js_mul :: "(string \<Rightarrow> jsval) \<Rightarrow> jsval \<Rightarrow> jsval \<Rightarrow> jsval" where
  "js_mul str_num a b = num_mul (to_number str_num a) (to_number str_num b)"

text \<open>\<^verbatim>\<open>a < n\<close> for an integer \<open>n\<close>: false as soon as ToNumber of \<open>a\<close> is NaN.\<close>

definition js_less_num :: "(string \<Rightarrow> jsval) \<Rightarrow> jsval \<Rightarrow> int \<Rightarrow> bool" where
  "js_less_num str_num a n =
     (case to_number str_num a of
        JNum m \<Rightarrow> m < n
      | JFrac m k \<Rightarrow> m < n * 2 ^ k
      | JNegZero \<Rightarrow> 0 < n
      | JInf neg \<Rightarrow> neg
      | _ \<Rightarrow> False)"

subsection \<open>Objects\<close>

text \<open>
  An object literal or a parsed JSON object: the list of its own properties, every key
  once; the order of the keys carries no meaning. Reading a property that is not there
  gives \<^verbatim>\<open>undefined\<close>.
\<close>

type_synonym object = "(string \<times> jsval) list"

definition get_prop :: "object \<Rightarrow> string \<Rightarrow> jsval" where
  "get_prop ob k = (case map_of ob k of None \<Rightarrow> JUndefined | Some v \<Rightarrow> v)"

fun put_prop :: "string \<Rightarrow> jsval \<Rightarrow> object \<Rightarrow> object" where
  "put_prop k v [] = [(k, v)]"
| "put_prop k v ((k', v') # ob) = (if k = k' then (k, v) # ob else (k', v') # put_prop k v ob)"

text \<open>\<^verbatim>\<open>{ ...a, ...b }\<close>: the properties of \<open>b\<close> written over those of \<open>a\<close>.\<close>

definition spread :: "object \<Rightarrow> object \<Rightarrow> object" where
  "spread a b = foldr (\<lambda>(k, v) ob. put_prop k v ob) b a"

subsection \<open>Strings\<close>

definition startsWith :: "string \<Rightarrow> string \<Rightarrow> bool" where
  "startsWith s p = (take (length p) s = p)"

fun str_includes :: "string \<Rightarrow> string \<Rightarrow> bool" where
  "str_includes [] p = (p = [])"
| "str_includes (c # cs) p = (startsWith (c # cs) p \<or> str_includes cs p)"

definition endsWith :: "string \<Rightarrow> string \<Rightarrow> bool" where
  "endsWith s p = startsWith (rev s) (rev p)"

section \<open>Effects\<close>

text \<open>
  A thrown JavaScript error, with the two properties the handlers read: \<^verbatim>\<open>message\<close> and
  \<^verbatim>\<open>status\<close>.
\<close>

datatype exn = Exn (exn_message: jsval) (exn_status: jsval)

text \<open>The options object handed to \<^verbatim>\<open>razorpay.orders.create\<close>.\<close>

record order_options =
  amount :: jsval
  currency :: string
  receipt :: string
  notes_userId :: jsval
  notes_credits :: jsval

text \<open>
  What a request does outside the process, in order: calls of the store module, of the
  payment provider and of the two AI endpoints, the temporary file written for the
  frontend and its delayed removal. Console output is left out, except the notice about an
  over-long prompt.
\<close>

datatype effect =
    Firebase string
  | OrdersCreate order_options
  | WriteFile string "8 word list"
  | VisionRequest string string
  | ImagesGenerate string
  | ConsoleLog string
  | CleanupLater string

text \<open>A document of the store: its fields and the two timestamps the store module sets.\<close>

record doc =
  data :: object
  createdAt :: "nat option"
  updatedAt :: "nat option"

text \<open>
  The three collections. \<open>images\<close> and \<open>transactions\<close> only grow (\<^verbatim>\<open>addDoc\<close>); the
  identifier \<^verbatim>\<open>addDoc\<close> assigns is a fresh one, here the number of identifiers handed out so
  far.
\<close>

record store =
  users :: "string \<rightharpoonup> doc"
  images :: "(string \<times> doc) list"
  transactions :: "(string \<times> doc) list"
  minted :: nat

text \<open>
  An asynchronous computation of a handler: it reads and writes the store, leaves a trace
  of effects, and either returns a value or throws. A throw keeps the writes made before it:
  nothing is rolled back.
\<close>

type_synonym 'a io = "store \<Rightarrow> (exn + 'a) \<times> store \<times> effect list"

definition ret :: "'a \<Rightarrow> 'a io" where
  "ret x = (\<lambda>s. (Inr x, s, []))"

definition throw :: "exn \<Rightarrow> 'a io" where
  "throw e = (\<lambda>s. (Inl e, s, []))"

definition emit :: "effect \<Rightarrow> unit io" where
  "emit ev = (\<lambda>s. (Inr (), s, [ev]))"

definition bind :: "'a io \<Rightarrow> ('a \<Rightarrow> 'b io) \<Rightarrow> 'b io" where
  "bind m f = (\<lambda>s. case m s of
       (Inl e, s1, l1) \<Rightarrow> (Inl e, s1, l1)
     | (Inr x, s1, l1) \<Rightarrow> (case f x s1 of (r, s2, l2) \<Rightarrow> (r, s2, l1 @ l2)))"

definition seq :: "unit io \<Rightarrow> 'b io \<Rightarrow> 'b io" where
  "seq m k = bind m (\<lambda>_. k)"

text \<open>\<^verbatim>\<open>try { m } catch (e) { h(e) }\<close>\<close>

definition try_catch :: "'a io \<Rightarrow> (exn \<Rightarrow> 'a io) \<Rightarrow> 'a io" where
  "try_catch m h = (\<lambda>s. case m s of
       (Inl e, s1, l1) \<Rightarrow> (case h e s1 of (r, s2, l2) \<Rightarrow> (r, s2, l1 @ l2))
     | (Inr x, s1, l1) \<Rightarrow> (Inr x, s1, l1))"

section \<open>The store module (\<^verbatim>\<open>firebase.js\<close>)\<close>

text \<open>
  The store is taken to answer every call: a function of this module throws only where
  the SDK refuses its argument or where the module itself throws.

  \<^verbatim>\<open>doc(usersCollection, userId)\<close>, as the SDK resolves it. An empty or otherwise falsy
  path is refused; a truthy value that is no string has no \<^verbatim>\<open>indexOf\<close>; a string with
  \<^verbatim>\<open>//\<close> is refused; the others are split at the slashes, the empty segments dropped, and
  the segments must be odd in number, so that they name a document below \<^verbatim>\<open>users\<close>. The
  document is known by these segments, joined with slashes: \<^verbatim>\<open>u1\<close>, \<^verbatim>\<open>/u1/\<close> and \<^verbatim>\<open>u1/\<close>
  are one document, and \<^verbatim>\<open>a/b/c\<close> is the document \<^verbatim>\<open>c\<close> of a collection below the user \<^verbatim>\<open>a\<close>.
\<close>

fun split_on :: "char \<Rightarrow> string \<Rightarrow> string list" where
  "split_on c [] = [ [] ]"
| "split_on c (x # xs) =
     (if x = c then [] # split_on c xs
      else (case split_on c xs of w # ws \<Rightarrow> (x # w) # ws | [] \<Rightarrow> [ [x] ]))"

definition segments :: "string \<Rightarrow> string list" where
  "segments p = filter (\<lambda>seg. seg \<noteq> []) (split_on CHR ''/'' p)"

fun join_path :: "string list \<Rightarrow> string" where
  "join_path [] = []"
| "join_path [seg] = seg"
| "join_path (seg # segs) = seg @ ''/'' @ join_path segs"

definition doc_ref :: "jsval \<Rightarrow> exn + string" where
  "doc_ref v = (case v of
       JStr p \<Rightarrow>
         if p = []
         then Inl (Exn (JStr ''Function doc() cannot be called with an empty path.'') JUndefined)
         else if str_includes p ''//''
         then Inl (Exn (JStr (''Invalid segment ('' @ p @ ''). Paths must not contain // in them.''))
                    JUndefined)
         else if even (length (segments p))
         then Inl (Exn (JStr (''Invalid document reference. Document references must have an even number of segments, but ''
                    @ join_path (''users'' # segments p) @ '' has ''
                    @ show_nat (Suc (length (segments p))) @ ''.'')) JUndefined)
         else Inr (join_path (segments p))
     | _ \<Rightarrow>
         if truthy v then Inl (Exn (JStr ''path.indexOf is not a function'') JUndefined)
         else Inl (Exn (JStr ''Function doc() cannot be called with an empty path.'') JUndefined))"

text \<open>\<^verbatim>\<open>userDocSnap.id\<close>: the last segment of the document's path.\<close>

definition snapshot_id :: "string \<Rightarrow> string" where
  "snapshot_id k = rev (takeWhile (\<lambda>c. c \<noteq> CHR ''/'') (rev k))"

text \<open>The SDK refuses to write a field whose value is \<^verbatim>\<open>undefined\<close>.\<close>

definition storable :: "object \<Rightarrow> bool" where
  "storable ob = list_all (\<lambda>(k, v). v \<noteq> JUndefined) ob"

definition unsupported :: exn where
  "unsupported = Exn (JStr ''Unsupported field value: undefined'') JUndefined"

definition getUserById :: "jsval \<Rightarrow> (object option) io" where
  "getUserById userId =
     seq (emit (Firebase ''getUserById''))
       (\<lambda>s. case doc_ref userId of
               Inl e \<Rightarrow> (Inl e, s, [])
             | Inr k \<Rightarrow> (case users s k of
                           None \<Rightarrow> (Inr None, s, [])
                         | Some d \<Rightarrow>
                             (Inr (Some (spread [(''id'', JStr (snapshot_id k))] (data d))), s, [])))"

text \<open>
  \<^verbatim>\<open>createOrUpdateUser(userData)\<close>. \<open>userData\<close> is the object without \<^verbatim>\<open>id\<close> and without a
  \<^verbatim>\<open>createdAt\<close> date, which are passed apart (\<open>created\<close> is \<open>None\<close> when the caller gives no
  date).
\<close>

definition createOrUpdateUser :: "nat \<Rightarrow> jsval \<Rightarrow> object \<Rightarrow> nat option \<Rightarrow> object io" where
  "createOrUpdateUser now ident userData created =
     seq (emit (Firebase ''createOrUpdateUser''))
       (\<lambda>s. case doc_ref ident of
               Inl e \<Rightarrow> (Inl e, s, [])
             | Inr k \<Rightarrow>
                 if \<not> storable userData then (Inl unsupported, s, [])
                 else (case users s k of
                    Some d \<Rightarrow>
                      (Inr (spread [(''id'', ident)] userData),
                       s\<lparr>users := (users s)(k \<mapsto>
                           \<lparr>data = spread (data d) userData,
                            createdAt = (case created of None \<Rightarrow> createdAt d | Some t \<Rightarrow> Some t),
                            updatedAt = Some now\<rparr>)\<rparr>, [])
                  | None \<Rightarrow>
                      (Inr (spread [(''id'', ident)] userData),
                       s\<lparr>users := (users s)(k \<mapsto>
                           \<lparr>data = userData, createdAt = Some now, updatedAt = Some now\<rparr>)\<rparr>, [])))"

definition updateUserCredits :: "nat \<Rightarrow> jsval \<Rightarrow> jsval \<Rightarrow> jsval io" where
  "updateUserCredits now userId credits =
     seq (emit (Firebase ''updateUserCredits''))
       (\<lambda>s. case doc_ref userId of
               Inl e \<Rightarrow> (Inl e, s, [])
             | Inr k \<Rightarrow> (case users s k of
                  None \<Rightarrow> (Inl (Exn (JStr (''User with ID '' @ to_string userId @ '' not found''))
                                  JUndefined), s, [])
                | Some d \<Rightarrow>
                    (let updatedCredits = js_add (js_or (get_prop (data d) ''credits'') (JNum 0)) credits
                     in (Inr updatedCredits,
                         s\<lparr>users := (users s)(k \<mapsto>
                             d\<lparr>data := put_prop ''credits'' updatedCredits (data d),
                               updatedAt := Some now\<rparr>)\<rparr>, []))))"

definition auto_id :: "nat \<Rightarrow> string" where
  "auto_id n = show_nat n"

definition saveGeneratedImage :: "nat \<Rightarrow> object \<Rightarrow> object io" where
  "saveGeneratedImage now imageData =
     seq (emit (Firebase ''saveGeneratedImage''))
       (\<lambda>s. if \<not> storable imageData then (Inl unsupported, s, [])
            else (Inr (spread [(''id'', JStr (auto_id (minted s)))] imageData),
                  s\<lparr>images := images s @
                       [(auto_id (minted s), \<lparr>data = imageData, createdAt = Some now, updatedAt = None\<rparr>)],
                    minted := Suc (minted s)\<rparr>, []))"

definition saveTransaction :: "nat \<Rightarrow> object \<Rightarrow> object io" where
  "saveTransaction now transactionData =
     seq (emit (Firebase ''saveTransaction''))
       (\<lambda>s. if \<not> storable transactionData then (Inl unsupported, s, [])
            else (Inr (spread [(''id'', JStr (auto_id (minted s)))] transactionData),
                  s\<lparr>transactions := transactions s @
                       [(auto_id (minted s), \<lparr>data = transactionData, createdAt = Some now, updatedAt = None\<rparr>)],
                    minted := Suc (minted s)\<rparr>, []))"

section \<open>The HTTP handlers (\<^verbatim>\<open>index.js\<close>)\<close>

text \<open>
  What the process is started with and the libraries it calls: the environment variables,
  Node's HMAC, the engine's StringToNumber, the payment provider's order creation, the
  image library, Base64, and the two AI endpoints. A provider call returns or throws.
  The handlers take the reading of the clock as \<open>now\<close> (\<^verbatim>\<open>Date.now()\<close>, \<^verbatim>\<open>new Date()\<close>), one
  reading for a request.
\<close>

record order =
  order_id :: jsval
  order_amount :: jsval
  order_currency :: jsval

record env =
  RAZORPAY_KEY_ID :: string
  RAZORPAY_KEY_SECRET :: string
  development :: bool
  uploadDir :: string
  str_num :: "string \<Rightarrow> jsval"
  hmac_sha256_hex :: "string \<Rightarrow> string \<Rightarrow> string"
  orders_create :: "order_options \<Rightarrow> exn + order"
  sharp_normalize :: "8 word list \<Rightarrow> 8 word list option"
  sharp_compress :: "8 word list \<Rightarrow> 8 word list option"
  sharp_metadata :: "8 word list \<Rightarrow> bool"
  base64 :: "8 word list \<Rightarrow> string"
  responses_create :: "string \<Rightarrow> string \<Rightarrow> exn + string"
  images_generate :: "string \<Rightarrow> exn + jsval"

text \<open>\<^verbatim>\<open>res.status(n).json(body)\<close>; \<^verbatim>\<open>res.json(body)\<close> is status 200.\<close>

datatype response = Response (status: nat) (body: object)

subsection \<open>\<^verbatim>\<open>POST /api/create-order\<close>\<close>

definition create_order :: "env \<Rightarrow> nat \<Rightarrow> object \<Rightarrow> response io" where
  "create_order env now req_body =
     try_catch
       (let price = get_prop req_body ''price'';
            userId = get_prop req_body ''userId'';
            credits = get_prop req_body ''credits'';
            options = \<lparr>amount = js_mul (str_num env) price (JNum 100),
                       currency = ''INR'',
                       receipt = ''receipt_order_'' @ show_nat now,
                       notes_userId = userId,
                       notes_credits = credits\<rparr>
        in seq (emit (OrdersCreate options))
             (case orders_create env options of
                Inl e \<Rightarrow> throw e
              | Inr ord \<Rightarrow>
                  ret (Response 200
                    [(''id'', order_id ord), (''amount'', order_amount ord),
                     (''currency'', order_currency ord), (''key'', JStr (RAZORPAY_KEY_ID env))])))
       (\<lambda>error. ret (Response 500 [(''error'', exn_message error)]))"

subsection \<open>\<^verbatim>\<open>POST /api/verify-payment\<close>\<close>

definition verify_payment :: "env \<Rightarrow> nat \<Rightarrow> object \<Rightarrow> response io" where
  "verify_payment env now req_body =
     try_catch
       (let razorpay_order_id = get_prop req_body ''razorpay_order_id'';
            razorpay_payment_id = get_prop req_body ''razorpay_payment_id'';
            razorpay_signature = get_prop req_body ''razorpay_signature'';
            credits = get_prop req_body ''credits'';
            userId = get_prop req_body ''userId''
        in if \<not> truthy userId then ret (Response 400 [(''error'', JStr ''User ID is required'')])
           else
             (let generatedSignature = hmac_sha256_hex env (RAZORPAY_KEY_SECRET env)
                    (to_string razorpay_order_id @ ''|'' @ to_string razorpay_payment_id)
              in if JStr generatedSignature = razorpay_signature then
                   bind (getUserById userId) (\<lambda>user.
                   bind (case user of
                           None \<Rightarrow> createOrUpdateUser now userId [(''credits'', JNum 0)] (Some now)
                         | Some u \<Rightarrow> ret u) (\<lambda>_.
                   bind (updateUserCredits now userId credits) (\<lambda>updatedCredits.
                   bind (saveTransaction now
                           [(''userId'', userId),
                            (''orderId'', razorpay_order_id),
                            (''paymentId'', razorpay_payment_id),
                            (''amount'', js_or (get_prop req_body ''amount'') (JNum 0)),
                            (''credits'', credits),
                            (''type'', JStr ''purchase'')]) (\<lambda>_.
                   ret (Response 200 [(''success'', JBool True), (''credits'', updatedCredits)])))))
                 else ret (Response 400 [(''error'', JStr ''Payment verification failed'')])))
       (\<lambda>error. ret (Response 500 [(''error'', exn_message error)]))"

subsection \<open>\<^verbatim>\<open>POST /api/upload-image\<close>\<close>

text \<open>
  The request after multipart parsing: the text fields (strings), the file part named
  \<^verbatim>\<open>image\<close> if there is one, and what \<^verbatim>\<open>req.protocol\<close> and \<^verbatim>\<open>req.get('host')\<close> give.
\<close>

record file_part =
  originalname :: string
  mimetype :: string
  content :: "8 word list"

record upload_req =
  form :: "(string \<times> string) list"
  image_part :: "file_part option"
  protocol :: string
  host :: "string option"

definition text_field :: "upload_req \<Rightarrow> string \<Rightarrow> string option" where
  "text_field req k = map_of (form req) k"

text \<open>A text field as a value: \<^verbatim>\<open>undefined\<close> when the form does not carry it.\<close>

definition field_val :: "upload_req \<Rightarrow> string \<Rightarrow> jsval" where
  "field_val req k = (case text_field req k of None \<Rightarrow> JUndefined | Some v \<Rightarrow> JStr v)"

text \<open>\<^verbatim>\<open>file.originalname.match(/\.(jpg|jpeg|png)$/)\<close>\<close>

definition fileFilter :: "file_part \<Rightarrow> bool" where
  "fileFilter file = (endsWith (originalname file) ''.jpg''
                    \<or> endsWith (originalname file) ''.jpeg''
                    \<or> endsWith (originalname file) ''.png'')"

definition fileSize_limit :: nat where
  "fileSize_limit = 4 * 1024 * 1024"

text \<open>
  \<^verbatim>\<open>upload.single('image')\<close>: the filter's error, the size limit's error (a file of more
  bytes than the limit), or \<^verbatim>\<open>req.file\<close> with the file in memory.
\<close>

definition upload_single :: "upload_req \<Rightarrow> string + file_part option" where
  "upload_single req = (case image_part req of
       None \<Rightarrow> Inr None
     | Some file \<Rightarrow>
         if \<not> fileFilter file then Inl ''Only JPG and PNG files are allowed!''
         else if fileSize_limit < length (content file) then Inl ''File too large''
         else Inr (Some file))"

text \<open>\<^verbatim>\<open>path.extname\<close>: from the last dot of the last path segment, unless that segment starts with it.\<close>

definition basename :: "string \<Rightarrow> string" where
  "basename p = rev (takeWhile (\<lambda>c. c \<noteq> CHR ''/'') (rev p))"

definition extname :: "string \<Rightarrow> string" where
  "extname p = (let b = basename p;
                    e = CHR ''.'' # rev (takeWhile (\<lambda>c. c \<noteq> CHR ''.'') (rev b))
                in if CHR ''.'' \<notin> set b \<or> length e = length b \<or> b = ''..'' then [] else e)"

text \<open>
  The image processing of the handler. The first pass falls back to the uploaded bytes
  when the library or the metadata read after it throws; the second pass, for a buffer of
  more than 3.9 MiB, keeps the buffer it holds when the library throws. Nothing outside
  the two inner handlers throws, so the handler around them, which would answer 400 for
  a missing buffer, is never entered.
\<close>

definition process_image :: "env \<Rightarrow> 8 word list \<Rightarrow> 8 word list" where
  "process_image env buffer =
     (let processedImageBuffer =
            (case sharp_normalize env buffer of
               None \<Rightarrow> buffer
             | Some b \<Rightarrow> if sharp_metadata env b then b else buffer)
      in if 39 * (1024 * 1024) < 10 * length processedImageBuffer
         then (case sharp_compress env processedImageBuffer of
                 None \<Rightarrow> processedImageBuffer
               | Some b \<Rightarrow> b)
         else processedImageBuffer)"

text \<open>
  \<^verbatim>\<open>styleGuide[style]\<close> inside the template literal. \<^verbatim>\<open>styleGuide\<close> is an object literal: besides
  its four own keys, a property read finds the members it inherits from
  \<^verbatim>\<open>Object.prototype\<close>, which are functions (and the prototype object itself under
  \<^verbatim>\<open>__proto__\<close>), all truthy. The result is the text the template literal makes of the
  value found, \<open>None\<close> for \<^verbatim>\<open>undefined\<close>.
\<close>

definition ghibli_nature :: string where
  \<open>ghibli_nature = ''Create a Studio Ghibli artwork in Hayao Miyazaki's distinctive style showing the exact same scene with hand-painted textures, soft pastel colors, and dreamy atmosphere like in "My Neighbor Totoro" or "Princess Mononoke"''\<close>

definition ghibli_character :: string where
  \<open>ghibli_character = ''Create a Studio Ghibli artwork in Hayao Miyazaki's distinctive style showing the exact same scene with simple rounded features, expressive eyes, and soft colors like in "Spirited Away" or "Kiki's Delivery Service"''\<close>

definition ghibli_cityscape :: string where
  \<open>ghibli_cityscape = ''Create a Studio Ghibli artwork in Hayao Miyazaki's distinctive style showing the exact same scene with detailed architecture, warm lighting, and nostalgic atmosphere like in "Whisper of the Heart" or "From Up On Poppy Hill"''\<close>

definition ghibli_fantasy :: string where
  \<open>ghibli_fantasy = ''Create a Studio Ghibli artwork in Hayao Miyazaki's distinctive style showing the exact same scene with magical elements, whimsical creatures, and ethereal lighting like in "Spirited Away" or "Howl's Moving Castle"''\<close>

definition object_prototype_functions :: "string list" where
  "object_prototype_functions =
     [''__defineGetter__'', ''__defineSetter__'', ''hasOwnProperty'', ''__lookupGetter__'',
      ''__lookupSetter__'', ''isPrototypeOf'', ''propertyIsEnumerable'', ''toString'',
      ''valueOf'', ''toLocaleString'']"

definition styleGuide :: "string \<Rightarrow> string option" where
  "styleGuide key =
     (if key = ''ghibli-nature'' then Some ghibli_nature
      else if key = ''ghibli-character'' then Some ghibli_character
      else if key = ''ghibli-cityscape'' then Some ghibli_cityscape
      else if key = ''ghibli-fantasy'' then Some ghibli_fantasy
      else if key = ''constructor'' then Some ''function Object() { [native code] }''
      else if key = ''__proto__'' then Some ''[object Object]''
      else if key \<in> set object_prototype_functions
        then Some (''function '' @ key @ ''() { [native code] }'')
      else None)"

text \<open>\<^verbatim>\<open>`${styleGuide[style] || styleGuide['ghibli-nature']}`\<close>\<close>

definition style_text :: "jsval \<Rightarrow> string" where
  "style_text style = (case styleGuide (to_string style) of
       None \<Rightarrow> ghibli_nature
     | Some t \<Rightarrow> t)"

definition is_space :: "char \<Rightarrow> bool" where
  "is_space c = (c \<in> set [CHR 0x09, CHR 0x0A, CHR 0x0B, CHR 0x0C, CHR 0x0D, CHR '' ''])"

text \<open>\<^verbatim>\<open>prompt.trim() !== ''\<close>, with the white space of ASCII.\<close>

definition trim_nonempty :: "string \<Rightarrow> bool" where
  "trim_nonempty s = (\<not> list_all is_space s)"

text \<open>The prompt for the image model, as the handler builds \<^verbatim>\<open>finalPrompt\<close>.\<close>

definition user_prompt :: "jsval \<Rightarrow> jsval" where
  "user_prompt prompt = js_or prompt (JStr ''Transform this image into Studio Ghibli style'')"

definition compose_prompt :: "string \<Rightarrow> jsval \<Rightarrow> jsval \<Rightarrow> string" where
  "compose_prompt imageDescription style prompt =
     ''I want you to create a Studio Ghibli style artwork by Hayao Miyazaki based on this image description. ''
     @ (if imageDescription \<noteq> [] then ''The image shows: '' @ imageDescription @ '' '' else [])
     @ style_text style @ ''. ''
     @ (case prompt of
          JStr p \<Rightarrow> if p \<noteq> [] \<and> trim_nonempty p then to_string (user_prompt prompt) @ ''. '' else []
        | _ \<Rightarrow> [])"

definition MAX_PROMPT_LENGTH :: nat where
  "MAX_PROMPT_LENGTH = 950"

definition vision_instruction :: string where
  "vision_instruction =
     ''Analyze this image in extreme detail, as if it were a frame from a Studio Ghibli film. Imagine you are a master at describing visual scenes, meticulously noting every element to craft the perfect prompt for DALL''
     @ [CHR 0xC2, CHR 0xB7] @
     ''E 3. Your goal is to enable the accurate recreation of this image in Miyazaki''
     @ [CHR 0xE2, CHR 0x80, CHR 0x99] @
     ''s signature Ghibli style.''"

definition refusal_prefix :: string where
  "refusal_prefix = ''I'm unable to analyze the image in detail as requested''"

definition lift :: "exn + 'a \<Rightarrow> 'a io" where
  "lift r = (\<lambda>s. (r, s, []))"

text \<open>\<^verbatim>\<open>res.status(n).json(body); cleanupTempFiles(); return;\<close>\<close>

definition respond_cleanup :: "string \<Rightarrow> response \<Rightarrow> response io" where
  "respond_cleanup tempFilePath r = seq (emit (CleanupLater tempFilePath)) (ret r)"

text \<open>
  From the composition of the prompt to the end of the handler: the generation call with
  its own \<^verbatim>\<open>try/catch\<close>, the check of the provider's answer (\<open>imageUrl\<close> is
  \<^verbatim>\<open>response.data[0].url\<close>, \<^verbatim>\<open>undefined\<close> when a part of that path is missing), and the
  settlement.
\<close>

definition generate_and_settle ::
  "env \<Rightarrow> nat \<Rightarrow> upload_req \<Rightarrow> string \<Rightarrow> string \<Rightarrow> string \<Rightarrow> response io" where
  "generate_and_settle env now req tempFilePath fileUrl imageDescription =
     (let prompt = field_val req ''prompt'';
          style = field_val req ''style'';
          detailLevel = field_val req ''detailLevel'';
          userId = field_val req ''userId'';
          userPrompt = user_prompt prompt;
          finalPrompt = compose_prompt imageDescription style prompt
      in seq (if MAX_PROMPT_LENGTH < length finalPrompt
              then emit (ConsoleLog (''Prompt too long ('' @ show_nat (length finalPrompt)
                     @ '' chars). Truncating to '' @ show_nat MAX_PROMPT_LENGTH @ '' chars.''))
              else ret ())
        (seq (emit (ImagesGenerate finalPrompt))
          (case images_generate env finalPrompt of
             Inl openaiError \<Rightarrow>
               (case exn_message openaiError of
                  JStr m \<Rightarrow>
                    if m \<noteq> [] \<and> str_includes m ''Invalid input image''
                    then respond_cleanup tempFilePath (Response 400
                      [(''error'', JStr ''The image format is not compatible with our AI system. Please try a different image.''),
                       (''details'', JStr m)])
                    else respond_cleanup tempFilePath (Response 500
                      [(''error'', JStr ''Error generating image with AI. Please try again or use a different image.''),
                       (''details'', if development env then JStr m else JUndefined)])
                | v \<Rightarrow>
                    if truthy v
                    then throw (Exn (JStr ''openaiError.message.includes is not a function'') JUndefined)
                    else respond_cleanup tempFilePath (Response 500
                      [(''error'', JStr ''Error generating image with AI. Please try again or use a different image.''),
                       (''details'', if development env then v else JUndefined)]))
           | Inr imageUrl \<Rightarrow>
               if \<not> truthy imageUrl
               then respond_cleanup tempFilePath (Response 500
                 [(''error'', JStr ''Failed to generate image. The AI service returned an invalid response.''),
                  (''details'', if development env then JStr ''Missing image URL in response'' else JUndefined)])
               else
                 bind (updateUserCredits now userId (JNum (- 1))) (\<lambda>updatedCredits.
                 bind (saveGeneratedImage now
                         [(''userId'', userId),
                          (''prompt'', userPrompt),
                          (''enhancedPrompt'', JStr finalPrompt),
                          (''imageDescription'', JStr imageDescription),
                          (''originalImageUrl'', JStr fileUrl),
                          (''style'', js_or style (JStr ''ghibli-nature'')),
                          (''detailLevel'', js_or detailLevel (JNum 50)),
                          (''imageUrl'', imageUrl)]) (\<lambda>savedImage.
                 bind (saveTransaction now
                         [(''userId'', userId),
                          (''imageId'', get_prop savedImage ''id''),
                          (''credits'', JNum (- 1)),
                          (''type'', JStr ''image-transformation''),
                          (''prompt'', userPrompt)]) (\<lambda>_.
                 respond_cleanup tempFilePath (Response 200
                   [(''success'', JBool True),
                    (''imageUrl'', imageUrl),
                    (''originalImageUrl'', JStr fileUrl),
                    (''credits'', updatedCredits),
                    (''originalPrompt'', userPrompt),
                    (''enhancedPrompt'', JStr finalPrompt),
                    (''imageDescription'', JStr imageDescription)])))))))"

text \<open>
  From the entitlement check on: the temporary copy for the frontend (its path, and the
  URL under which the static route serves it), the image processing, the vision call and
  the refusal check. \<open>rnd\<close> is \<^verbatim>\<open>Math.round(Math.random() * 1E9)\<close>. The file system is
  taken to accept the write.
\<close>

definition tempFilePath :: "env \<Rightarrow> nat \<Rightarrow> nat \<Rightarrow> file_part \<Rightarrow> string" where
  "tempFilePath env now rnd file =
     (let imageId = show_nat now @ ''-'' @ show_nat rnd
      in uploadDir env @ ''/'' @ imageId @ ''-original'' @ extname (originalname file))"

definition fileUrl :: "env \<Rightarrow> nat \<Rightarrow> nat \<Rightarrow> upload_req \<Rightarrow> file_part \<Rightarrow> string" where
  "fileUrl env now rnd req file =
     protocol req @ ''://''
     @ (case host req of None \<Rightarrow> ''undefined'' | Some h \<Rightarrow> h)
     @ ''/uploads/'' @ basename (tempFilePath env now rnd file)"

definition image_data_url :: "env \<Rightarrow> file_part \<Rightarrow> string" where
  "image_data_url env file =
     (let processedImageBuffer = process_image env (content file);
          base64Image = base64 env processedImageBuffer
      in ''data:image/png;base64,'' @ base64Image)"

definition transform :: "env \<Rightarrow> nat \<Rightarrow> nat \<Rightarrow> upload_req \<Rightarrow> file_part \<Rightarrow> response io" where
  "transform env now rnd req file =
     seq (emit (WriteFile (tempFilePath env now rnd file) (content file)))
       (seq (emit (VisionRequest vision_instruction (image_data_url env file)))
         (bind (lift (responses_create env vision_instruction (image_data_url env file)))
           (\<lambda>imageDescription.
              if startsWith imageDescription refusal_prefix
              then respond_cleanup (tempFilePath env now rnd file) (Response 400
                [(''error'', JStr ''Our AI system could not properly analyze your image. Please try a different image with clearer content.''),
                 (''details'', JStr ''Vision model unable to process image details'')])
              else generate_and_settle env now req (tempFilePath env now rnd file)
                     (fileUrl env now rnd req file) imageDescription)))"

text \<open>
  The handler behind \<^verbatim>\<open>uploadMiddleware\<close>. Its outer \<^verbatim>\<open>catch\<close> block begins with a call of
  \<^verbatim>\<open>cleanupTempFiles\<close>, a \<^verbatim>\<open>const\<close> of the \<^verbatim>\<open>try\<close> block and so not in scope there: the
  block throws a ReferenceError before it writes a response, and the request is left
  without one.
\<close>

definition upload_image :: "env \<Rightarrow> nat \<Rightarrow> nat \<Rightarrow> upload_req \<Rightarrow> response io" where
  "upload_image env now rnd req =
     (case upload_single req of
        Inl msg \<Rightarrow> ret (Response 400 [(''error'', JStr (''File upload error: '' @ msg))])
      | Inr req_file \<Rightarrow>
          try_catch
            (let userId = field_val req ''userId''
             in if \<not> truthy userId then ret (Response 400 [(''error'', JStr ''User ID is required'')])
                else (case req_file of
                   None \<Rightarrow> ret (Response 400
                     [(''error'', JStr ''No image file was uploaded. Please select an image to transform.'')])
                 | Some file \<Rightarrow>
                     if content file = []
                     then ret (Response 400
                       [(''error'', JStr ''The uploaded file is empty. Please select a valid image.'')])
                     else bind (getUserById userId) (\<lambda>user.
                       case user of
                         None \<Rightarrow> ret (Response 404 [(''error'', JStr ''User not found'')])
                       | Some u \<Rightarrow>
                           if \<not> truthy (get_prop u ''credits'')
                              \<or> js_less_num (str_num env) (get_prop u ''credits'') 1
                           then ret (Response 400 [(''error'', JStr ''Not enough credits'')])
                           else transform env now rnd req file)))
            (\<lambda>error. throw (Exn (JStr ''cleanupTempFiles is not defined'') JUndefined)))"


section \<open>Reading the store, and the inputs the properties are tried on\<close>

text \<open>\<^verbatim>\<open>generatedSignature === razorpay_signature\<close>, as \<^verbatim>\<open>/api/verify-payment\<close> computes it.\<close>

abbreviation signature_matches :: "env \<Rightarrow> object \<Rightarrow> bool" where
  "signature_matches env req_body \<equiv>
     JStr (hmac_sha256_hex env (RAZORPAY_KEY_SECRET env)
       (to_string (get_prop req_body ''razorpay_order_id'') @ ''|''
        @ to_string (get_prop req_body ''razorpay_payment_id'')))
     = get_prop req_body ''razorpay_signature''"

text \<open>
  The balance of a user as \<^verbatim>\<open>updateUserCredits\<close> reads it, \<^verbatim>\<open>userData.credits || 0\<close>; zero for
  a user without a record.
\<close>

definition balance :: "store \<Rightarrow> string \<Rightarrow> jsval" where
  "balance s uid = (case users s uid of
       None \<Rightarrow> JNum 0
     | Some d \<Rightarrow> js_or (get_prop (data d) ''credits'') (JNum 0))"

text \<open>
  \<open>has_value v m k\<close>: the number \<open>v\<close> is finite and its value is \<open>m / 2 ^ k\<close>.
\<close>

fun dyadic :: "jsval \<Rightarrow> (int \<times> nat) option" where
  "dyadic (JNum n) = Some (n, 0)"
| "dyadic (JFrac m k) = Some (m, k)"
| "dyadic JNegZero = Some (0, 0)"
| "dyadic _ = None"

definition has_value :: "jsval \<Rightarrow> int \<Rightarrow> nat \<Rightarrow> bool" where
  "has_value v m k = (case dyadic v of
       Some (m', k') \<Rightarrow> m' * 2 ^ k = m * 2 ^ k'
     | None \<Rightarrow> False)"

text \<open>
  A concrete environment, store and requests. The library functions of the environment
  are simple stand-ins; the theorems below hold for every environment. Its
  StringToNumber reads a string of one to fifteen decimal digits, as the engine does, and
  gives NaN for every other string.
\<close>

fun digits_value :: "nat \<Rightarrow> string \<Rightarrow> nat option" where
  "digits_value acc [] = Some acc"
| "digits_value acc (c # cs) =
     (if c \<in> set ''0123456789'' then digits_value (acc * 10 + (of_char c - 48)) cs else None)"

definition short_decimal :: "string \<Rightarrow> jsval" where
  "short_decimal str =
     (if str = [] \<or> 15 < length str then JNaN
      else (case digits_value 0 str of Some n \<Rightarrow> JNum (int n) | None \<Rightarrow> JNaN))"

definition demo_env :: env where
  "demo_env =
     \<lparr>RAZORPAY_KEY_ID = ''rzp_test_1'',
      RAZORPAY_KEY_SECRET = ''s3cret'',
      development = False,
      uploadDir = ''/app/uploads'',
      str_num = short_decimal,
      hmac_sha256_hex = (\<lambda>key msg. key @ '':'' @ msg),
      orders_create = (\<lambda>opts. Inr \<lparr>order_id = JStr ''order_1'', order_amount = amount opts,
                                   order_currency = JStr (currency opts)\<rparr>),
      sharp_normalize = (\<lambda>b. Some b),
      sharp_compress = (\<lambda>b. Some b),
      sharp_metadata = (\<lambda>_. True),
      base64 = (\<lambda>b. replicate (length b) CHR ''A''),
      responses_create = (\<lambda>_ _. Inr ''A cat sleeps on a sofa.''),
      images_generate = (\<lambda>_. Inr (JStr ''https://images.example/1.png''))\<rparr>"

definition long_description :: string where
  "long_description = replicate 1000 CHR ''x''"

definition long_env :: env where
  "long_env = demo_env\<lparr>responses_create := (\<lambda>_ _. Inr long_description)\<rparr>"

definition refusing_env :: env where
  "refusing_env = demo_env\<lparr>responses_create := (\<lambda>_ _. Inr (refusal_prefix @ ''.''))\<rparr>"

definition empty_store :: store where
  "empty_store = \<lparr>users = Map.empty, images = [], transactions = [], minted = 0\<rparr>"

definition store_with :: "jsval \<Rightarrow> store" where
  "store_with c =
     \<lparr>users = [''u1'' \<mapsto> \<lparr>data = [(''credits'', c)], createdAt = Some 1, updatedAt = Some 1\<rparr>],
      images = [], transactions = [], minted = 0\<rparr>"

definition legacy_doc :: doc where
  "legacy_doc = \<lparr>data = [(''name'', JStr ''Ann'')], createdAt = Some 1, updatedAt = Some 1\<rparr>"

definition legacy_store :: store where
  "legacy_store = \<lparr>users = [''u1'' \<mapsto> legacy_doc], images = [], transactions = [], minted = 0\<rparr>"

definition demo_order :: object where
  "demo_order = [(''price'', JNum 100), (''userId'', JStr ''u1''), (''credits'', JNum 10)]"

text \<open>The price 19.99, as the double that \<^verbatim>\<open>JSON.parse\<close> reads, and the largest safe integer.\<close>

definition decimal_order :: object where
  "decimal_order =
     [(''price'', JFrac 5626684784446013 48), (''userId'', JStr ''u1''), (''credits'', JNum 10)]"

definition large_order :: object where
  "large_order =
     [(''price'', JNum 9007199254740991), (''userId'', JStr ''u1''), (''credits'', JNum 10)]"

definition demo_payment :: object where
  "demo_payment =
     [(''razorpay_order_id'', JStr ''order_1''),
      (''razorpay_payment_id'', JStr ''pay_1''),
      (''razorpay_signature'', JStr ''s3cret:order_1|pay_1''),
      (''credits'', JNum 10),
      (''userId'', JStr ''u1'')]"

text \<open>A payment whose \<^verbatim>\<open>credits\<close> is the string \<^verbatim>\<open>"5"\<close>.\<close>

definition string_payment :: object where
  "string_payment =
     [(''razorpay_order_id'', JStr ''order_1''),
      (''razorpay_payment_id'', JStr ''pay_1''),
      (''razorpay_signature'', JStr ''s3cret:order_1|pay_1''),
      (''credits'', JStr ''5''),
      (''userId'', JStr ''u1'')]"

definition forged_payment :: object where
  "forged_payment =
     [(''razorpay_order_id'', JStr ''order_1''),
      (''razorpay_payment_id'', JStr ''pay_1''),
      (''razorpay_signature'', JStr ''0000''),
      (''credits'', JNum 10),
      (''userId'', JStr ''u1'')]"

definition anonymous_payment :: object where
  "anonymous_payment =
     [(''razorpay_order_id'', JStr ''order_1''),
      (''razorpay_payment_id'', JStr ''pay_1''),
      (''razorpay_signature'', JStr ''s3cret:order_1|pay_1''),
      (''credits'', JNum 10)]"

definition demo_file :: file_part where
  "demo_file = \<lparr>originalname = ''cat.png'', mimetype = ''image/png'', content = [137, 80, 78, 71]\<rparr>"

definition demo_upload :: upload_req where
  "demo_upload =
     \<lparr>form = [(''userId'', ''u1''), (''style'', ''ghibli-fantasy''), (''prompt'', ''add a red kite'')],
      image_part = Some demo_file,
      protocol = ''https'',
      host = Some ''api.example''\<rparr>"

section \<open>Properties\<close>

subsection \<open>Objects and the computations of a handler\<close>

lemmas io_defs = ret_def throw_def emit_def bind_def seq_def try_catch_def lift_def

lemma map_of_put_prop: "map_of (put_prop k v ob) = (map_of ob)(k \<mapsto> v)"
  by (induction ob) (auto simp: fun_eq_iff)

lemma get_put_prop: "get_prop (put_prop k v ob) k' = (if k' = k then v else get_prop ob k')"
  by (simp add: get_prop_def map_of_put_prop)

lemma get_prop_Nil: "get_prop [] k = JUndefined"
  by (simp add: get_prop_def)

lemma get_prop_Cons: "get_prop ((k, v) # ob) k' = (if k' = k then v else get_prop ob k')"
  by (simp add: get_prop_def)

lemma spread_Cons: "spread a ((k, v) # b) = put_prop k v (spread a b)"
  by (simp add: spread_def)

lemma get_spread:
  "get_prop (spread a b) k = (if k \<in> fst ` set b then get_prop b k else get_prop a k)"
proof (induction b)
  case Nil
  show ?case by (simp add: spread_def)
next
  case (Cons x b)
  obtain k' v' where x: "x = (k', v')" by (cases x)
  show ?case
    unfolding x using Cons
    by (simp add: spread_Cons get_put_prop get_prop_Cons)
qed

lemma user_credits:
  "get_prop (spread [(''id'', v)] ob) ''credits'' = get_prop ob ''credits''"
proof (cases "''credits'' \<in> fst ` set ob")
  case True
  then show ?thesis by (simp add: get_spread)
next
  case False
  then have "map_of ob ''credits'' = None" by (simp add: map_of_eq_None_iff)
  then have "get_prop ob ''credits'' = JUndefined" by (simp add: get_prop_def)
  with False show ?thesis by (simp add: get_spread get_prop_Cons get_prop_Nil)
qed

lemma run_split: "x = (fst x, fst (snd x), snd (snd x))"
  by simp

subsection \<open>Numbers\<close>

text \<open>
  Sums and products whose exact value is an integer below \<open>2 ^ 53\<close> in magnitude, or such an
  integer over a power of two that a double can hold, are not rounded.
\<close>

lemma bitlen_le: "n < 2 ^ k \<Longrightarrow> bitlen n \<le> k"
proof (induction k arbitrary: n)
  case 0
  then show ?case by (simp add: bitlen.simps [of 0])
next
  case (Suc k)
  show ?case
  proof (cases "n = 0")
    case True
    then show ?thesis by (simp add: bitlen.simps [of 0])
  next
    case False
    from Suc.prems have "n div 2 < 2 ^ k" by simp
    from Suc.IH [OF this] False show ?thesis by (simp add: bitlen.simps [of n])
  qed
qed

lemma signed_abs: "signed (i < 0) (nat \<bar>i\<bar>) = i"
  by (simp add: signed_def)

lemma round_dyadic_exact:
  assumes "a < 2 ^ 53" "- 1074 \<le> e"
  shows "round_dyadic neg a e = finite_num neg a e"
proof -
  from bitlen_le [OF assms(1)] have "int (bitlen a) \<le> 53" by simp
  with assms(2) have "max (e + int (bitlen a) - 53) (- 1074) \<le> e" by simp
  then show ?thesis by (simp add: round_dyadic_def Let_def)
qed

lemma finite_num_small:
  assumes "0 < a" "a < 2 ^ 53" "e \<le> 0"
  shows "finite_num neg a e = canon neg a e"
proof -
  from bitlen_le [OF assms(2)] have "int (bitlen a) \<le> 53" by simp
  with assms(3) have "\<not> 1024 < e + int (bitlen a)" by simp
  with assms(1) show ?thesis by (simp add: finite_num_def)
qed

lemma round_int:
  assumes "\<bar>v\<bar> < 2 ^ 53" "v \<noteq> 0"
  shows "round_dyadic (v < 0) (nat \<bar>v\<bar>) 0 = JNum v"
proof -
  have a: "nat \<bar>v\<bar> < 2 ^ 53" using assms(1) by (simp add: nat_less_iff)
  have p: "0 < nat \<bar>v\<bar>" using assms(2) by simp
  show ?thesis
    using round_dyadic_exact [OF a, of 0 "v < 0"] finite_num_small [OF p a, of 0 "v < 0"]
    by (simp add: canon_def signed_abs)
qed

lemma num_add_ints:
  assumes "\<bar>a + b\<bar> < 2 ^ 53"
  shows "num_add (JNum a) (JNum b) = JNum (a + b)"
proof (cases "a = 0 \<or> b = 0")
  case True
  then show ?thesis by (auto simp: num_add_def js_zero_def)
next
  case False
  show ?thesis
  proof (cases "a + b = 0")
    case True
    with False show ?thesis by (simp add: num_add_def Let_def signed_abs)
  next
    case nz: False
    from round_int [OF assms nz] False nz show ?thesis
      by (simp add: num_add_def Let_def signed_abs)
  qed
qed

lemma js_add_ints: "\<bar>a + b\<bar> < 2 ^ 53 \<Longrightarrow> js_add (JNum a) (JNum b) = JNum (a + b)"
  by (simp add: js_add_def num_add_ints)

lemma js_add_zero: "js_add (JNum 0) (JNum d) = JNum d"
  by (auto simp: js_add_def num_add_def js_zero_def)

lemma num_mul_100:
  assumes "\<bar>p * 100\<bar> < 2 ^ 53"
  shows "num_mul (JNum p) (JNum 100) = JNum (p * 100)"
proof (cases "p = 0")
  case True
  then show ?thesis
    by (simp add: num_mul_def round_dyadic_exact finite_num_def js_zero_def)
next
  case False
  have a: "nat \<bar>p\<bar> * 100 < 2 ^ 53" using assms by (simp add: abs_mult nat_less_iff nat_mult_distrib)
  have p: "0 < nat \<bar>p\<bar> * 100" using False by simp
  have s: "signed (p < 0) (nat \<bar>p\<bar> * 100) = p * 100" by (simp add: signed_def)
  show ?thesis
    using round_dyadic_exact [OF a, of 0 "p < 0"] finite_num_small [OF p a, of 0 "p < 0"] s
    by (simp add: num_mul_def canon_def)
qed


lemma strip_value: "strip a k = (a', k') \<Longrightarrow> a' * 2 ^ k = a * 2 ^ k'"
proof (induction k arbitrary: a)
  case 0
  then show ?case by simp
next
  case (Suc k)
  show ?case
  proof (cases "even a")
    case True
    with Suc.prems have "strip (a div 2) k = (a', k')" by simp
    from Suc.IH [OF this] have "a' * 2 ^ k = (a div 2) * 2 ^ k'" .
    then have "a' * 2 ^ Suc k = (2 * (a div 2)) * 2 ^ k'" by simp
    with True show ?thesis by simp
  next
    case False
    with Suc.prems show ?thesis by simp
  qed
qed

lemma signed_mult: "signed neg a * int b = signed neg (a * b)"
  by (simp add: signed_def)

lemma canon_value:
  assumes "e \<le> 0"
  shows "has_value (canon neg a e) (signed neg a) (nat (- e))"
proof (cases "e = 0")
  case True
  then show ?thesis by (simp add: canon_def has_value_def)
next
  case False
  obtain a' k' where st: "strip a (nat (- e)) = (a', k')" by (cases "strip a (nat (- e))")
  from strip_value [OF st] have "a' * 2 ^ nat (- e) = a * 2 ^ k'" .
  then have "signed neg (a' * 2 ^ nat (- e)) = signed neg (a * 2 ^ k')" by simp
  then have v: "signed neg a' * 2 ^ nat (- e) = signed neg a * 2 ^ k'"
    by (simp add: signed_def split: if_splits)
  from False assms st v show ?thesis
    by (auto simp: canon_def has_value_def)
qed

lemma num_mul_frac_100:
  assumes "\<bar>m * 100\<bar> < 2 ^ 53" "k \<le> 1074"
  shows "has_value (num_mul (JFrac m k) (JNum 100)) (m * 100) k"
proof (cases "m = 0")
  case True
  then show ?thesis
    using assms(2)
    by (auto simp: num_mul_def round_dyadic_exact finite_num_def js_zero_def has_value_def)
next
  case False
  have a: "nat \<bar>m\<bar> * 100 < 2 ^ 53" using assms(1) by (simp add: abs_mult nat_less_iff nat_mult_distrib)
  have p: "0 < nat \<bar>m\<bar> * 100" using False by simp
  have e: "- 1074 \<le> - int k" "- int k \<le> 0" using assms(2) by simp_all
  have s: "signed (m < 0) (nat \<bar>m\<bar> * 100) = m * 100" by (simp add: signed_def)
  have "num_mul (JFrac m k) (JNum 100) = canon (m < 0) (nat \<bar>m\<bar> * 100) (- int k)"
    using round_dyadic_exact [OF a e(1), of "m < 0"] finite_num_small [OF p a e(2), of "m < 0"]
    by (simp add: num_mul_def)
  then show ?thesis
    using canon_value [OF e(2), of "m < 0" "nat \<bar>m\<bar> * 100"] by (simp add: s)
qed

lemma bitlen_numeral:
  "bitlen 0 = 0" "bitlen (Suc 0) = Suc 0" "bitlen (numeral Num.One) = Suc 0"
  "bitlen (numeral (Num.Bit0 w)) = Suc (bitlen (numeral w))"
  "bitlen (numeral (Num.Bit1 w)) = Suc (bitlen (numeral w))"
proof -
  show zero: "bitlen 0 = 0" by (simp add: bitlen.simps [of 0])
  show one: "bitlen (Suc 0) = Suc 0" by (subst bitlen.simps) (simp add: zero)
  then show "bitlen (numeral Num.One) = Suc 0" by simp
  have "numeral (Num.Bit0 w) div 2 = (numeral w :: nat)" by simp
  then show "bitlen (numeral (Num.Bit0 w)) = Suc (bitlen (numeral w))"
    by (simp add: bitlen.simps [of "numeral (Num.Bit0 w)"])
  have "numeral (Num.Bit1 w) div 2 = (numeral w :: nat)" by simp
  then show "bitlen (numeral (Num.Bit1 w)) = Suc (bitlen (numeral w))"
    by (simp add: bitlen.simps [of "numeral (Num.Bit1 w)"])
qed

lemma strip_numeral:
  "strip a (numeral k) = (if even a then strip (a div 2) (pred_numeral k) else (a, numeral k))"
  by (simp add: numeral_eq_Suc)

lemmas double_defs = num_add_def num_mul_def round_dyadic_def finite_num_def canon_def
  signed_def js_zero_def Let_def bitlen_numeral strip_numeral

subsection \<open>Documents\<close>

lemma split_on_plain: "c \<notin> set p \<Longrightarrow> split_on c p = [p]"
  by (induction p) auto

lemma no_double_slash: "CHR ''/'' \<notin> set p \<Longrightarrow> \<not> str_includes p ''//''"
  by (induction p) (auto simp: startsWith_def)

lemma doc_ref_plain:
  "uid \<noteq> [] \<Longrightarrow> CHR ''/'' \<notin> set uid \<Longrightarrow> doc_ref (JStr uid) = Inr uid"
  by (simp add: doc_ref_def segments_def split_on_plain no_double_slash)

lemma doc_ref_truthy: "doc_ref v = Inr k \<Longrightarrow> truthy v"
  by (auto simp: doc_ref_def split: jsval.splits if_splits)

lemma get_user_found:
  "doc_ref v = Inr k \<Longrightarrow> users s k = Some d \<Longrightarrow>
   getUserById v s = (Inr (Some (spread [(''id'', JStr (snapshot_id k))] (data d))), s, [Firebase ''getUserById''])"
  by (simp add: getUserById_def io_defs)

lemma get_user_absent:
  "doc_ref v = Inr k \<Longrightarrow> users s k = None \<Longrightarrow>
   getUserById v s = (Inr None, s, [Firebase ''getUserById''])"
  by (simp add: getUserById_def io_defs)

subsection \<open>Order creation\<close>

text \<open>
  C5, amended. For every create-order request the handler hands the payment provider one
  order: its amount is the product, in double arithmetic, of the request's price and 100,
  its currency is INR, and the request's userId and credits are its notes; the handler
  writes nothing to the store. When the price is an integer \<open>p\<close> and \<open>p * 100\<close> is below
  \<open>2 ^ 53\<close> in magnitude, the amount is exactly \<open>p * 100\<close>. When the price is a double with a
  fractional part, \<open>m / 2 ^ k\<close>, and \<open>m * 100\<close> is below \<open>2 ^ 53\<close> in magnitude, the amount is
  exactly 100 times the price. Nothing more is said of other prices, where the product is
  rounded.
\<close>

theorem create_order_amount:
  "snd (create_order env now req_body s) =
     (s, [OrdersCreate \<lparr>amount = js_mul (str_num env) (get_prop req_body ''price'') (JNum 100),
            currency = ''INR'',
            receipt = ''receipt_order_'' @ show_nat now,
            notes_userId = get_prop req_body ''userId'',
            notes_credits = get_prop req_body ''credits''\<rparr>])
   \<and> (\<forall>p. get_prop req_body ''price'' = JNum p \<and> \<bar>p * 100\<bar> < 2 ^ 53 \<longrightarrow>
         js_mul (str_num env) (get_prop req_body ''price'') (JNum 100) = JNum (p * 100))
   \<and> (\<forall>m k. get_prop req_body ''price'' = JFrac m k \<and> \<bar>m * 100\<bar> < 2 ^ 53 \<and> k \<le> 1074 \<longrightarrow>
         has_value (js_mul (str_num env) (get_prop req_body ''price'') (JNum 100)) (m * 100) k)"
proof (intro conjI allI impI)
  show "snd (create_order env now req_body s) =
     (s, [OrdersCreate \<lparr>amount = js_mul (str_num env) (get_prop req_body ''price'') (JNum 100),
            currency = ''INR'',
            receipt = ''receipt_order_'' @ show_nat now,
            notes_userId = get_prop req_body ''userId'',
            notes_credits = get_prop req_body ''credits''\<rparr>])"
    by (auto simp: create_order_def io_defs Let_def split: sum.splits)
next
  fix p
  assume "get_prop req_body ''price'' = JNum p \<and> \<bar>p * 100\<bar> < 2 ^ 53"
  then show "js_mul (str_num env) (get_prop req_body ''price'') (JNum 100) = JNum (p * 100)"
    by (simp add: js_mul_def num_mul_100)
next
  fix m k
  assume "get_prop req_body ''price'' = JFrac m k \<and> \<bar>m * 100\<bar> < 2 ^ 53 \<and> k \<le> 1074"
  then show "has_value (js_mul (str_num env) (get_prop req_body ''price'') (JNum 100)) (m * 100) k"
    by (simp add: js_mul_def num_mul_frac_100)
qed

text \<open>The prices 100 and 12.5: the amounts are 10000 and \<open>2500 / 2\<close>.\<close>

theorem create_order_amount_witness:
  "get_prop demo_order ''price'' = JNum 100 \<and> \<bar>100 * 100\<bar> < (2 ^ 53 :: int)
   \<and> snd (create_order demo_env 5 demo_order empty_store) =
       (empty_store, [OrdersCreate \<lparr>amount = JNum 10000, currency = ''INR'',
            receipt = ''receipt_order_5'',
            notes_userId = JStr ''u1'',
            notes_credits = JNum 10\<rparr>])
   \<and> get_prop [(''price'', JFrac 25 1)] ''price'' = JFrac 25 1 \<and> \<bar>25 * 100\<bar> < (2 ^ 53 :: int)
   \<and> (1 :: nat) \<le> 1074
   \<and> has_value (js_mul (str_num demo_env) (get_prop [(''price'', JFrac 25 1)] ''price'') (JNum 100))
       (25 * 100) 1"
proof -
  have p: "get_prop demo_order ''price'' = JNum 100"
    by (simp add: demo_order_def get_prop_Cons)
  have q: "get_prop [(''price'', JFrac 25 1)] ''price'' = JFrac 25 1"
    by (simp add: get_prop_Cons)
  show ?thesis
    using create_order_amount [of demo_env 5 demo_order empty_store]
      create_order_amount [of demo_env 5 "[(''price'', JFrac 25 1)]" empty_store] p q
    by (simp add: demo_order_def get_prop_Cons show_nat.simps digit_char_def)
qed

text \<open>
  C5 as stated fails. The price 19.99 arrives as the double \<open>5626684784446013 / 2 ^ 48\<close>;
  the amount handed to the provider is the double \<open>8791694975696895 / 2 ^ 42\<close>, in decimal
  digits 1998.9999999999998, which is not 100 times the price. For the integer price
  9007199254740991 the amount is the double 900719925474099072, which is not the product
  900719925474099100.
\<close>

theorem create_order_amount_rounded_counterexample:
  "get_prop decimal_order ''price'' = JFrac 5626684784446013 48
   \<and> snd (create_order demo_env 5 decimal_order empty_store) =
       (empty_store, [OrdersCreate \<lparr>amount = JFrac 8791694975696895 42, currency = ''INR'',
            receipt = ''receipt_order_5'',
            notes_userId = JStr ''u1'',
            notes_credits = JNum 10\<rparr>])
   \<and> \<not> has_value (JFrac 8791694975696895 42) (5626684784446013 * 100) 48
   \<and> get_prop large_order ''price'' = JNum 9007199254740991
   \<and> snd (create_order demo_env 5 large_order empty_store) =
       (empty_store, [OrdersCreate \<lparr>amount = JNum 900719925474099072, currency = ''INR'',
            receipt = ''receipt_order_5'',
            notes_userId = JStr ''u1'',
            notes_credits = JNum 10\<rparr>])
   \<and> JNum 900719925474099072 \<noteq> JNum (9007199254740991 * 100)"
  by (simp add: create_order_def io_defs demo_env_def decimal_order_def large_order_def
      get_prop_Cons js_mul_def double_defs has_value_def show_nat.simps digit_char_def)

text \<open>
  C6. The handler of \<^verbatim>\<open>/api/create-order\<close> checks no field. On the empty body it asks the
  payment provider for an order with the amount NaN and without notes, and answers 200 or
  500 as the provider decides, never 400.
\<close>

theorem create_order_missing_fields:
  "\<exists>r. create_order env now [] s =
     (Inr r, s, [OrdersCreate \<lparr>amount = JNaN, currency = ''INR'',
        receipt = ''receipt_order_'' @ show_nat now,
        notes_userId = JUndefined, notes_credits = JUndefined\<rparr>])
     \<and> (status r = 200 \<or> status r = 500)"
  by (auto simp: create_order_def io_defs js_mul_def num_mul_def get_prop_def Let_def
      split: sum.splits)

subsection \<open>Payment verification\<close>

lemma verify_anonymous:
  assumes "\<not> truthy (get_prop req_body ''userId'')"
  shows "verify_payment env now req_body s =
           (Inr (Response 400 [(''error'', JStr ''User ID is required'')]), s, [])"
  using assms by (simp add: verify_payment_def io_defs Let_def)

lemma verify_mismatch:
  assumes "verify_payment env now req_body s = (r, s', log)"
    and "\<not> signature_matches env req_body"
  shows "(\<exists>b. r = Inr (Response 400 b)) \<and> s' = s \<and> log = []"
  using assms by (auto simp: verify_payment_def io_defs Let_def split: if_splits)

lemma verify_match:
  assumes run: "verify_payment env now req_body s = (r, s', log)"
    and m: "signature_matches env req_body"
    and dr: "doc_ref (get_prop req_body ''userId'') = Inr k"
    and ids: "get_prop req_body ''razorpay_order_id'' \<noteq> JUndefined"
             "get_prop req_body ''razorpay_payment_id'' \<noteq> JUndefined"
    and c: "get_prop req_body ''credits'' \<noteq> JUndefined"
  shows "r = Inr (Response 200 [(''success'', JBool True),
                 (''credits'', js_add (balance s k) (get_prop req_body ''credits''))])
       \<and> (\<exists>d. users s' k = Some d
              \<and> get_prop (data d) ''credits'' = js_add (balance s k) (get_prop req_body ''credits''))
       \<and> (users s k = None \<longrightarrow> balance s k = JNum 0)
       \<and> (\<forall>k'. k' \<noteq> k \<longrightarrow> users s' k' = users s k')
       \<and> images s' = images s
       \<and> transactions s' = transactions s @
           [(auto_id (minted s),
             \<lparr>data = [(''userId'', get_prop req_body ''userId''),
                      (''orderId'', get_prop req_body ''razorpay_order_id''),
                      (''paymentId'', get_prop req_body ''razorpay_payment_id''),
                      (''amount'', js_or (get_prop req_body ''amount'') (JNum 0)),
                      (''credits'', get_prop req_body ''credits''),
                      (''type'', JStr ''purchase'')],
              createdAt = Some now, updatedAt = None\<rparr>)]"
proof (cases "users s k")
  case None
  have b0: "balance s k = JNum 0" using None by (simp add: balance_def)
  have z: "js_or (JNum 0) (JNum 0) = JNum 0" by (simp add: js_or_def)
  have u: "js_or (get_prop req_body ''amount'') (JNum 0) \<noteq> JUndefined"
    by (auto simp: js_or_def)
  show ?thesis
    using run m dr doc_ref_truthy [OF dr] ids c None b0 z u
    by (auto simp: verify_payment_def io_defs Let_def getUserById_def createOrUpdateUser_def
        updateUserCredits_def saveTransaction_def storable_def
        get_prop_Cons get_prop_Nil get_put_prop split: if_splits)
next
  case (Some d)
  have bd: "balance s k = js_or (get_prop (data d) ''credits'') (JNum 0)"
    using Some by (simp add: balance_def)
  have u: "js_or (get_prop req_body ''amount'') (JNum 0) \<noteq> JUndefined"
    by (auto simp: js_or_def)
  show ?thesis
    using run m dr doc_ref_truthy [OF dr] ids c Some bd u
    by (auto simp: verify_payment_def io_defs Let_def getUserById_def
        updateUserCredits_def saveTransaction_def storable_def
        get_put_prop split: if_splits)
qed

text \<open>
  C1, amended. A verify-payment request without a user identifier is answered 400
  \<^verbatim>\<open>User ID is required\<close>, whatever its signature, and changes nothing. A request whose
  signature does not match is answered 400 and changes nothing. A request whose signature
  matches, whose user identifier names a document \<open>k\<close> of the users collection, and which
  carries its order and payment identifiers and its credits: the answer is success with
  the new balance, which is the JavaScript sum \<^verbatim>\<open>(balance || 0) + credits\<close> (the balance
  being zero when the user has no record yet); the user record exists afterwards with that
  balance; no other user and no image record changes; and one purchase transaction with
  the user, order and payment identifiers and the credits is appended. When the balance
  and the credits are integers and their sum is below \<open>2 ^ 53\<close> in magnitude, the new
  balance is exactly their sum.
\<close>

theorem verify_payment_settles:
  assumes "verify_payment env now req_body s = (r, s', log)"
  shows "(\<not> truthy (get_prop req_body ''userId'') \<longrightarrow>
            r = Inr (Response 400 [(''error'', JStr ''User ID is required'')]) \<and> s' = s \<and> log = [])
       \<and> (\<not> signature_matches env req_body \<longrightarrow>
            (\<exists>b. r = Inr (Response 400 b)) \<and> s' = s \<and> log = [])
       \<and> (signature_matches env req_body
          \<and> doc_ref (get_prop req_body ''userId'') = Inr k
          \<and> get_prop req_body ''razorpay_order_id'' \<noteq> JUndefined
          \<and> get_prop req_body ''razorpay_payment_id'' \<noteq> JUndefined
          \<and> get_prop req_body ''credits'' \<noteq> JUndefined \<longrightarrow>
            r = Inr (Response 200 [(''success'', JBool True),
                   (''credits'', js_add (balance s k) (get_prop req_body ''credits''))])
          \<and> (\<exists>d. users s' k = Some d
                 \<and> get_prop (data d) ''credits''
                     = js_add (balance s k) (get_prop req_body ''credits''))
          \<and> (users s k = None \<longrightarrow> balance s k = JNum 0)
          \<and> (\<forall>k'. k' \<noteq> k \<longrightarrow> users s' k' = users s k')
          \<and> images s' = images s
          \<and> transactions s' = transactions s @
               [(auto_id (minted s),
                 \<lparr>data = [(''userId'', get_prop req_body ''userId''),
                          (''orderId'', get_prop req_body ''razorpay_order_id''),
                          (''paymentId'', get_prop req_body ''razorpay_payment_id''),
                          (''amount'', js_or (get_prop req_body ''amount'') (JNum 0)),
                          (''credits'', get_prop req_body ''credits''),
                          (''type'', JStr ''purchase'')],
                  createdAt = Some now, updatedAt = None\<rparr>)])
       \<and> (\<forall>b c. balance s k = JNum b \<and> get_prop req_body ''credits'' = JNum c
              \<and> \<bar>b + c\<bar> < 2 ^ 53 \<longrightarrow>
            js_add (balance s k) (get_prop req_body ''credits'') = JNum (b + c))"
proof (intro conjI)
  show "\<not> truthy (get_prop req_body ''userId'') \<longrightarrow>
            r = Inr (Response 400 [(''error'', JStr ''User ID is required'')]) \<and> s' = s \<and> log = []"
    using assms verify_anonymous [of req_body env now s] by auto
  show "\<not> signature_matches env req_body \<longrightarrow>
            (\<exists>b. r = Inr (Response 400 b)) \<and> s' = s \<and> log = []"
    using verify_mismatch [OF assms] by blast
  show "\<forall>b c. balance s k = JNum b \<and> get_prop req_body ''credits'' = JNum c
              \<and> \<bar>b + c\<bar> < 2 ^ 53 \<longrightarrow>
            js_add (balance s k) (get_prop req_body ''credits'') = JNum (b + c)"
    by (simp add: js_add_ints)
  show "signature_matches env req_body
          \<and> doc_ref (get_prop req_body ''userId'') = Inr k
          \<and> get_prop req_body ''razorpay_order_id'' \<noteq> JUndefined
          \<and> get_prop req_body ''razorpay_payment_id'' \<noteq> JUndefined
          \<and> get_prop req_body ''credits'' \<noteq> JUndefined \<longrightarrow>
            r = Inr (Response 200 [(''success'', JBool True),
                   (''credits'', js_add (balance s k) (get_prop req_body ''credits''))])
          \<and> (\<exists>d. users s' k = Some d
                 \<and> get_prop (data d) ''credits''
                     = js_add (balance s k) (get_prop req_body ''credits''))
          \<and> (users s k = None \<longrightarrow> balance s k = JNum 0)
          \<and> (\<forall>k'. k' \<noteq> k \<longrightarrow> users s' k' = users s k')
          \<and> images s' = images s
          \<and> transactions s' = transactions s @
               [(auto_id (minted s),
                 \<lparr>data = [(''userId'', get_prop req_body ''userId''),
                          (''orderId'', get_prop req_body ''razorpay_order_id''),
                          (''paymentId'', get_prop req_body ''razorpay_payment_id''),
                          (''amount'', js_or (get_prop req_body ''amount'') (JNum 0)),
                          (''credits'', get_prop req_body ''credits''),
                          (''type'', JStr ''purchase'')],
                  createdAt = Some now, updatedAt = None\<rparr>)]"
    using verify_match [OF assms, of k] by blast
qed

text \<open>
  A matching payment of 10 credits for a user without a record, answered with the balance
  10; a forged one and one without a user identifier, which leave the store as it was.
\<close>

theorem verify_payment_settles_witness:
  "signature_matches demo_env demo_payment
   \<and> doc_ref (get_prop demo_payment ''userId'') = Inr ''u1''
   \<and> get_prop demo_payment ''razorpay_order_id'' \<noteq> JUndefined
   \<and> get_prop demo_payment ''razorpay_payment_id'' \<noteq> JUndefined
   \<and> get_prop demo_payment ''credits'' = JNum 10
   \<and> balance empty_store ''u1'' = JNum 0
   \<and> fst (verify_payment demo_env 5 demo_payment empty_store)
       = Inr (Response 200 [(''success'', JBool True), (''credits'', JNum 10)])
   \<and> length (transactions (fst (snd (verify_payment demo_env 5 demo_payment empty_store)))) = 1
   \<and> \<not> signature_matches demo_env forged_payment
   \<and> fst (snd (verify_payment demo_env 5 forged_payment empty_store)) = empty_store
   \<and> \<not> truthy (get_prop [] ''userId'')
   \<and> verify_payment demo_env 5 [] empty_store
       = (Inr (Response 400 [(''error'', JStr ''User ID is required'')]), empty_store, [])"
proof -
  have m: "signature_matches demo_env demo_payment"
    by (simp add: demo_env_def demo_payment_def get_prop_def)
  have f: "\<not> signature_matches demo_env forged_payment"
    by (simp add: demo_env_def forged_payment_def get_prop_def)
  have b: "balance empty_store ''u1'' = JNum 0"
    by (simp add: balance_def empty_store_def)
  have a: "\<not> truthy (get_prop [] ''userId'')"
    by (simp add: get_prop_Nil)
  have present: "get_prop demo_payment ''userId'' = JStr ''u1''"
    "get_prop demo_payment ''razorpay_order_id'' \<noteq> JUndefined"
    "get_prop demo_payment ''razorpay_payment_id'' \<noteq> JUndefined"
    "get_prop demo_payment ''credits'' = JNum 10"
    by (simp_all add: demo_payment_def get_prop_def)
  have k: "doc_ref (get_prop demo_payment ''userId'') = Inr ''u1''"
    by (simp add: present doc_ref_plain)
  show ?thesis
    using verify_payment_settles [where env = demo_env and now = 5 and req_body = demo_payment
          and s = empty_store and k = "''u1''", OF run_split]
      verify_payment_settles [where env = demo_env and now = 5 and req_body = forged_payment
          and s = empty_store and k = "''u1''", OF run_split]
      verify_payment_settles [where env = demo_env and now = 5 and req_body = "[]"
          and s = empty_store and k = "''u1''", OF run_split]
      m f b a k present
    by (simp add: empty_store_def prod_eq_iff)
qed

text \<open>
  C1 as stated fails: a request whose signature matches but which carries no user
  identifier is answered 400, before the signature is looked at.
\<close>

theorem verify_payment_without_user_counterexample:
  "signature_matches demo_env anonymous_payment
   \<and> verify_payment demo_env 5 anonymous_payment empty_store
       = (Inr (Response 400 [(''error'', JStr ''User ID is required'')]), empty_store, [])"
  by (simp add: verify_payment_def demo_env_def anonymous_payment_def get_prop_def io_defs)

subsection \<open>Image upload: intake and entitlement\<close>

lemma upload_intake:
  assumes "\<not> truthy (field_val req ''userId'') \<or> image_part req = None
         \<or> (\<exists>f. image_part req = Some f
               \<and> (content f = [] \<or> fileSize_limit < length (content f) \<or> \<not> fileFilter f))"
  shows "\<exists>b. upload_image env now rnd req s = (Inr (Response 400 b), s, [])"
  using assms
  by (auto simp: upload_image_def upload_single_def io_defs Let_def
      split: option.splits sum.splits if_splits)

lemma upload_entitlement:
  assumes "upload_single req = Inr (Some file)" "content file \<noteq> []"
    and "doc_ref (field_val req ''userId'') = Inr k"
  shows "users s k = None \<Longrightarrow>
           upload_image env now rnd req s =
             (Inr (Response 404 [(''error'', JStr ''User not found'')]), s, [Firebase ''getUserById''])"
    and "users s k = Some d \<Longrightarrow>
         \<not> truthy (get_prop (data d) ''credits'')
           \<or> js_less_num (str_num env) (get_prop (data d) ''credits'') 1 \<Longrightarrow>
           upload_image env now rnd req s =
             (Inr (Response 400 [(''error'', JStr ''Not enough credits'')]), s, [Firebase ''getUserById''])"
  using assms doc_ref_truthy [OF assms(3)]
  by (auto simp: upload_image_def Let_def get_user_found get_user_absent user_credits
      bind_def try_catch_def ret_def)

lemma demo_upload_single: "upload_single demo_upload = Inr (Some demo_file)"
  by (simp add: upload_single_def demo_upload_def demo_file_def fileFilter_def endsWith_def
      startsWith_def fileSize_limit_def)

lemma demo_content: "content demo_file \<noteq> []"
  by (simp add: demo_file_def)

lemma demo_fields:
  "field_val demo_upload ''userId'' = JStr ''u1''"
  "field_val demo_upload ''style'' = JStr ''ghibli-fantasy''"
  "field_val demo_upload ''prompt'' = JStr ''add a red kite''"
  "field_val demo_upload ''detailLevel'' = JUndefined"
  by (simp_all add: field_val_def text_field_def demo_upload_def)

text \<open>
  C9. An upload-image request without a user identifier, without a file, with an empty
  file, with a file of more than 4 MiB, or with a file whose name does not end in
  \<^verbatim>\<open>.jpg\<close>, \<^verbatim>\<open>.jpeg\<close> or \<^verbatim>\<open>.png\<close> is answered 400; the store is not read or written and
  no provider is called.
\<close>

theorem upload_intake_rejects:
  assumes "\<not> truthy (field_val req ''userId'') \<or> image_part req = None
         \<or> (\<exists>f. image_part req = Some f
               \<and> (content f = [] \<or> fileSize_limit < length (content f) \<or> \<not> fileFilter f))"
  shows "\<exists>b. upload_image env now rnd req s = (Inr (Response 400 b), s, [])"
  using upload_intake [OF assms] .

text \<open>The five rejections, each on the demo request with one thing wrong.\<close>

theorem upload_intake_rejects_witness:
  "\<not> truthy (field_val (demo_upload\<lparr>form := []\<rparr>) ''userId'')
   \<and> (\<exists>b. upload_image demo_env 1000 7 (demo_upload\<lparr>form := []\<rparr>) (store_with (JNum 1))
          = (Inr (Response 400 b), store_with (JNum 1), []))
   \<and> image_part (demo_upload\<lparr>image_part := None\<rparr>) = None
   \<and> (\<exists>b. upload_image demo_env 1000 7 (demo_upload\<lparr>image_part := None\<rparr>) (store_with (JNum 1))
          = (Inr (Response 400 b), store_with (JNum 1), []))
   \<and> content (demo_file\<lparr>content := []\<rparr>) = []
   \<and> (\<exists>b. upload_image demo_env 1000 7
            (demo_upload\<lparr>image_part := Some (demo_file\<lparr>content := []\<rparr>)\<rparr>) (store_with (JNum 1))
          = (Inr (Response 400 b), store_with (JNum 1), []))
   \<and> fileSize_limit < length (content (demo_file\<lparr>content := replicate 4194305 0\<rparr>))
   \<and> (\<exists>b. upload_image demo_env 1000 7
            (demo_upload\<lparr>image_part := Some (demo_file\<lparr>content := replicate 4194305 0\<rparr>)\<rparr>)
            (store_with (JNum 1))
          = (Inr (Response 400 b), store_with (JNum 1), []))
   \<and> \<not> fileFilter (demo_file\<lparr>originalname := ''cat.gif''\<rparr>)
   \<and> (\<exists>b. upload_image demo_env 1000 7
            (demo_upload\<lparr>image_part := Some (demo_file\<lparr>originalname := ''cat.gif''\<rparr>)\<rparr>)
            (store_with (JNum 1))
          = (Inr (Response 400 b), store_with (JNum 1), []))"
proof -
  have h1: "\<not> truthy (field_val (demo_upload\<lparr>form := []\<rparr>) ''userId'')"
    by (simp add: field_val_def text_field_def)
  have h3: "content (demo_file\<lparr>content := []\<rparr>) = []" by simp
  have h4: "fileSize_limit < length (content (demo_file\<lparr>content := replicate 4194305 0\<rparr>))"
    by (simp add: fileSize_limit_def)
  have h5: "\<not> fileFilter (demo_file\<lparr>originalname := ''cat.gif''\<rparr>)"
    by (simp add: fileFilter_def endsWith_def startsWith_def)
  show ?thesis
    using
      upload_intake_rejects [of "demo_upload\<lparr>form := []\<rparr>" demo_env 1000 7 "store_with (JNum 1)"]
      upload_intake_rejects [of "demo_upload\<lparr>image_part := None\<rparr>" demo_env 1000 7 "store_with (JNum 1)"]
      upload_intake_rejects [of "demo_upload\<lparr>image_part := Some (demo_file\<lparr>content := []\<rparr>)\<rparr>"
        demo_env 1000 7 "store_with (JNum 1)"]
      upload_intake_rejects [of "demo_upload\<lparr>image_part := Some (demo_file\<lparr>content := replicate 4194305 0\<rparr>)\<rparr>"
        demo_env 1000 7 "store_with (JNum 1)"]
      upload_intake_rejects [of "demo_upload\<lparr>image_part := Some (demo_file\<lparr>originalname := ''cat.gif''\<rparr>)\<rparr>"
        demo_env 1000 7 "store_with (JNum 1)"]
      h1 h3 h4 h5
    by simp
qed

text \<open>
  C3. For an upload-image request that passes the intake checks, with a user identifier
  that is a document identifier: if the user has no record the answer is 404, and if the
  stored balance is a number below 1 the answer is 400. In both cases the only effect is
  the lookup of the user: no AI call, and the store (users, images, transactions) is as
  before.
\<close>

theorem upload_entitlement_check:
  assumes "upload_single req = Inr (Some file)" "content file \<noteq> []"
    and "field_val req ''userId'' = JStr uid" "uid \<noteq> []" "CHR ''/'' \<notin> set uid"
  shows "(users s uid = None \<longrightarrow>
            upload_image env now rnd req s =
              (Inr (Response 404 [(''error'', JStr ''User not found'')]), s, [Firebase ''getUserById'']))
       \<and> (\<forall>d n. users s uid = Some d \<and> get_prop (data d) ''credits'' = JNum n \<and> n < 1 \<longrightarrow>
            upload_image env now rnd req s =
              (Inr (Response 400 [(''error'', JStr ''Not enough credits'')]), s, [Firebase ''getUserById'']))"
proof (intro conjI impI allI)
  have k: "doc_ref (field_val req ''userId'') = Inr uid"
    using assms(3-5) by (simp add: doc_ref_plain)
  note ent = upload_entitlement [OF assms(1,2) k]
  assume "users s uid = None"
  from ent(1) [OF this]
  show "upload_image env now rnd req s =
      (Inr (Response 404 [(''error'', JStr ''User not found'')]), s, [Firebase ''getUserById''])" .
next
  fix d n
  assume a: "users s uid = Some d \<and> get_prop (data d) ''credits'' = JNum n \<and> n < 1"
  then have "\<not> truthy (get_prop (data d) ''credits'')
           \<or> js_less_num (str_num env) (get_prop (data d) ''credits'') 1"
    by (simp add: js_less_num_def)
  moreover have k: "doc_ref (field_val req ''userId'') = Inr uid"
    using assms(3-5) by (simp add: doc_ref_plain)
  ultimately
  show "upload_image env now rnd req s =
      (Inr (Response 400 [(''error'', JStr ''Not enough credits'')]), s, [Firebase ''getUserById''])"
    using a upload_entitlement(2) [OF assms(1,2)] by blast
qed

text \<open>The demo request for a user without a record, and for a user with balance 0.\<close>

theorem upload_entitlement_check_witness:
  "upload_single demo_upload = Inr (Some demo_file) \<and> content demo_file \<noteq> []
   \<and> field_val demo_upload ''userId'' = JStr ''u1''
   \<and> users empty_store ''u1'' = None
   \<and> upload_image demo_env 1000 7 demo_upload empty_store =
       (Inr (Response 404 [(''error'', JStr ''User not found'')]), empty_store, [Firebase ''getUserById''])
   \<and> get_prop (data (the (users (store_with (JNum 0)) ''u1''))) ''credits'' = JNum 0
   \<and> upload_image demo_env 1000 7 demo_upload (store_with (JNum 0)) =
       (Inr (Response 400 [(''error'', JStr ''Not enough credits'')]), store_with (JNum 0),
        [Firebase ''getUserById''])"
proof -
  have uid: "''u1'' \<noteq> []" "CHR ''/'' \<notin> set ''u1''" by simp_all
  have absent: "users empty_store ''u1'' = None" by (simp add: empty_store_def)
  have poor: "users (store_with (JNum 0)) ''u1''
      = Some \<lparr>data = [(''credits'', JNum 0)], createdAt = Some 1, updatedAt = Some 1\<rparr>"
    by (simp add: store_with_def)
  show ?thesis
    using upload_entitlement_check [OF demo_upload_single demo_content demo_fields(1) uid,
        of empty_store demo_env 1000 7]
      upload_entitlement_check [OF demo_upload_single demo_content demo_fields(1) uid,
        of "store_with (JNum 0)" demo_env 1000 7]
      demo_upload_single demo_content demo_fields(1) absent poor
    by (simp add: get_prop_Cons)
qed

text \<open>
  C10. For a user whose stored \<^verbatim>\<open>credits\<close> field is absent or otherwise falsy,
  \<^verbatim>\<open>updateUserCredits\<close> with a number \<open>delta\<close> returns exactly \<open>delta\<close> and stores it, and an
  upload-image request that passes the intake checks is answered 400 for lack of
  credits, with no effect but the lookup of the user.
\<close>

theorem falsy_credits_count_as_zero:
  assumes "users s uid = Some d" "\<not> truthy (get_prop (data d) ''credits'')"
    and "uid \<noteq> []" "CHR ''/'' \<notin> set uid"
  shows "updateUserCredits now (JStr uid) (JNum delta) s =
           (Inr (JNum delta),
            s\<lparr>users := (users s)(uid \<mapsto>
                d\<lparr>data := put_prop ''credits'' (JNum delta) (data d), updatedAt := Some now\<rparr>)\<rparr>,
            [Firebase ''updateUserCredits''])
       \<and> (\<forall>req file. upload_single req = Inr (Some file) \<and> content file \<noteq> []
              \<and> field_val req ''userId'' = JStr uid \<longrightarrow>
            upload_image env now rnd req s =
              (Inr (Response 400 [(''error'', JStr ''Not enough credits'')]), s, [Firebase ''getUserById'']))"
proof (intro conjI allI impI)
  show "updateUserCredits now (JStr uid) (JNum delta) s =
           (Inr (JNum delta),
            s\<lparr>users := (users s)(uid \<mapsto>
                d\<lparr>data := put_prop ''credits'' (JNum delta) (data d), updatedAt := Some now\<rparr>)\<rparr>,
            [Firebase ''updateUserCredits''])"
    using assms by (simp add: updateUserCredits_def io_defs doc_ref_plain js_or_def js_add_zero Let_def)
next
  fix req fl
  assume a: "upload_single req = Inr (Some fl) \<and> content fl \<noteq> []
              \<and> field_val req ''userId'' = JStr uid"
  then have r: "upload_single req = Inr (Some fl)" "content fl \<noteq> []"
    "field_val req ''userId'' = JStr uid" by simp_all
  have k: "doc_ref (field_val req ''userId'') = Inr uid"
    using r(3) assms(3,4) by (simp add: doc_ref_plain)
  from upload_entitlement(2) [OF r(1,2) k assms(1)] assms(2)
  show "upload_image env now rnd req s =
      (Inr (Response 400 [(''error'', JStr ''Not enough credits'')]), s, [Firebase ''getUserById''])"
    by blast
qed

text \<open>A user record without a \<^verbatim>\<open>credits\<close> field: crediting 5 returns 5, uploading is refused.\<close>

theorem falsy_credits_count_as_zero_witness:
  "users legacy_store ''u1'' = Some legacy_doc
   \<and> \<not> truthy (get_prop (data legacy_doc) ''credits'')
   \<and> fst (updateUserCredits 9 (JStr ''u1'') (JNum 5) legacy_store) = Inr (JNum 5)
   \<and> upload_single demo_upload = Inr (Some demo_file) \<and> content demo_file \<noteq> []
   \<and> field_val demo_upload ''userId'' = JStr ''u1''
   \<and> upload_image demo_env 9 7 demo_upload legacy_store =
       (Inr (Response 400 [(''error'', JStr ''Not enough credits'')]), legacy_store,
        [Firebase ''getUserById''])"
proof -
  have u: "users legacy_store ''u1'' = Some legacy_doc" by (simp add: legacy_store_def)
  have c: "\<not> truthy (get_prop (data legacy_doc) ''credits'')"
    by (simp add: legacy_doc_def get_prop_Cons get_prop_Nil)
  have uid: "''u1'' \<noteq> []" "CHR ''/'' \<notin> set ''u1''" by simp_all
  show ?thesis
    using falsy_credits_count_as_zero [OF u c uid, of 9 5 demo_env 7]
      u c demo_upload_single demo_content demo_fields(1)
    by simp
qed

subsection \<open>Image upload: what a run of the handler looks like\<close>

lemma generate_prompt:
  assumes "generate_and_settle env now req tmp furl d s = (r, s', log)"
  shows "\<exists>rest. log = (if MAX_PROMPT_LENGTH < length (compose_prompt d (field_val req ''style'') (field_val req ''prompt''))
                       then [ConsoleLog (''Prompt too long ('' @ show_nat (length (compose_prompt d (field_val req ''style'') (field_val req ''prompt'')))
                     @ '' chars). Truncating to '' @ show_nat MAX_PROMPT_LENGTH @ '' chars.'')] else [])
                  @ ImagesGenerate (compose_prompt d (field_val req ''style'') (field_val req ''prompt'')) # rest
               \<and> (\<forall>p. ImagesGenerate p \<notin> set rest)"
  using assms
  by (auto simp: generate_and_settle_def Let_def io_defs respond_cleanup_def
       updateUserCredits_def saveGeneratedImage_def saveTransaction_def
      split: sum.splits jsval.splits if_splits option.splits prod.splits)


lemma generate_no_vision:
  assumes "generate_and_settle env now req tmp furl d s = (r, s', log)"
  shows "VisionRequest t u \<notin> set log"
  using assms
  by (auto simp: generate_and_settle_def Let_def io_defs respond_cleanup_def
       updateUserCredits_def saveGeneratedImage_def saveTransaction_def
      split: sum.splits jsval.splits if_splits option.splits prod.splits)



lemma transform_run:
  assumes "transform env now rnd req file s = (r, s', log)"
  shows "log = WriteFile (tempFilePath env now rnd file) (content file)
            # VisionRequest vision_instruction (image_data_url env file) # drop 2 log
    \<and> (case responses_create env vision_instruction (image_data_url env file) of
          Inl e \<Rightarrow> r = Inl e \<and> s' = s \<and> drop 2 log = []
        | Inr d \<Rightarrow>
            if startsWith d refusal_prefix
            then r = Inr (Response 400
                   [(''error'', JStr ''Our AI system could not properly analyze your image. Please try a different image with clearer content.''),
                    (''details'', JStr ''Vision model unable to process image details'')])
                 \<and> s' = s \<and> drop 2 log = [CleanupLater (tempFilePath env now rnd file)]
            else generate_and_settle env now req (tempFilePath env now rnd file)
                   (fileUrl env now rnd req file) d s = (r, s', drop 2 log))"
  using assms
  by (auto simp: transform_def io_defs respond_cleanup_def
      split: sum.splits if_splits prod.splits)




lemma transform_log:
  assumes "transform env now rnd req file s = (r, s', log)"
  shows "log = WriteFile (tempFilePath env now rnd file) (content file)
            # VisionRequest vision_instruction (image_data_url env file) # drop 2 log"
  using transform_run [OF assms] by blast

lemma upload_run:
  assumes "upload_image env now rnd req s = (r, s', log)"
  shows "(s' = s \<and> (log = [] \<or> log = [Firebase ''getUserById''])
          \<and> (\<forall>x. r = Inr x \<longrightarrow> status x \<noteq> 200))
       \<or> (\<exists>file log0. upload_single req = Inr (Some file)
          \<and> log = Firebase ''getUserById'' # log0
          \<and> ((\<exists>x. transform env now rnd req file s = (Inr x, s', log0) \<and> r = Inr x)
             \<or> (\<exists>e. transform env now rnd req file s = (Inl e, s', log0)
                  \<and> r = Inl (Exn (JStr ''cleanupTempFiles is not defined'') JUndefined))))"
proof (cases "upload_single req")
  case (Inl msg)
  with assms show ?thesis by (auto simp: upload_image_def io_defs)
next
  case (Inr req_file)
  show ?thesis
  proof (cases req_file)
    case None
    with Inr assms show ?thesis
      by (auto simp: upload_image_def io_defs Let_def split: if_splits)
  next
    case (Some f)
    obtain r0 s0 log0 where t: "transform env now rnd req f s = (r0, s0, log0)"
      by (cases "transform env now rnd req f s") auto
    show ?thesis
      using assms Inr Some t
      by (cases r0)
         (auto simp: upload_image_def Let_def io_defs getUserById_def
            split: sum.splits if_splits option.splits)
  qed
qed

subsection \<open>Image upload: the prompt\<close>

text \<open>
  C8. The fallback to the default style misses the keys that \<^verbatim>\<open>styleGuide\<close> inherits from
  \<^verbatim>\<open>Object.prototype\<close>: the key \<^verbatim>\<open>toString\<close> is none of the four styles, yet
  \<^verbatim>\<open>styleGuide['toString']\<close> is a function, truthy, and its source text stands in the prompt
  where the default template should.
\<close>

theorem style_inherited_key_not_default:
  "''toString'' \<notin> set [''ghibli-nature'', ''ghibli-character'', ''ghibli-cityscape'', ''ghibli-fantasy'']
   \<and> style_text (JStr ''toString'') = ''function toString() { [native code] }''
   \<and> compose_prompt ''A cat.'' (JStr ''toString'') JUndefined
       = ''I want you to create a Studio Ghibli style artwork by Hayao Miyazaki based on this image description. The image shows: A cat. function toString() { [native code] }. ''
   \<and> compose_prompt ''A cat.'' (JStr ''toString'') JUndefined
       \<noteq> compose_prompt ''A cat.'' (JStr ''ghibli-nature'') JUndefined"
  by (simp add: compose_prompt_def style_text_def styleGuide_def object_prototype_functions_def
      ghibli_nature_def)

text \<open>For every key that \<^verbatim>\<open>styleGuide\<close> neither has nor inherits, the fallback holds.\<close>

lemma style_fallback:
  assumes "styleGuide (to_string style) = None"
  shows "compose_prompt d style prompt = compose_prompt d (JStr ''ghibli-nature'') prompt"
  using assms by (simp add: compose_prompt_def style_text_def styleGuide_def)

lemma long_prompt_long:
  "MAX_PROMPT_LENGTH < length (compose_prompt long_description (JStr ''ghibli-fantasy'') (JStr ''add a red kite''))"
  by (simp add: compose_prompt_def long_description_def MAX_PROMPT_LENGTH_def)

lemma long_description_accepted: "\<not> startsWith long_description refusal_prefix"
  by (simp add: startsWith_def long_description_def refusal_prefix_def)


lemma demo_doc: "doc_ref (JStr ''u1'') = Inr ''u1''"
  by (simp add: doc_ref_plain)

lemmas run_defs = upload_image_def demo_upload_single demo_fields demo_content
  io_defs getUserById_def demo_doc store_with_def
  get_spread get_prop_Cons get_prop_Nil js_less_num_def transform_def
  generate_and_settle_def Let_def respond_cleanup_def updateUserCredits_def
  saveGeneratedImage_def saveTransaction_def storable_def user_prompt_def js_or_def

text \<open>
  C4. Whenever the handler calls the image model, the prompt of the call is the composed
  prompt, whole: built from the description the vision model returned, the style and the
  user's prompt, whatever its length. When it is longer than 950 characters the handler
  logs the notice and still sends it unchanged.
\<close>

theorem upload_prompt_unmodified:
  assumes run: "upload_image env now rnd req s = (r, s', log)"
    and gen: "ImagesGenerate p \<in> set log"
  shows "\<exists>file d. upload_single req = Inr (Some file)
       \<and> responses_create env vision_instruction (image_data_url env file) = Inr d
       \<and> p = compose_prompt d (field_val req ''style'') (field_val req ''prompt'')
       \<and> (MAX_PROMPT_LENGTH < length p \<longrightarrow>
            ConsoleLog (''Prompt too long ('' @ show_nat (length p)
              @ '' chars). Truncating to '' @ show_nat MAX_PROMPT_LENGTH @ '' chars.'') \<in> set log)"
proof -
  from upload_run [OF run] gen
  obtain f r0 log0 where up: "upload_single req = Inr (Some f)"
    and log: "log = Firebase ''getUserById'' # log0"
    and tr: "transform env now rnd req f s = (r0, s', log0)"
    by auto
  from transform_run [OF tr]
  obtain rest where log0: "log0 = WriteFile (tempFilePath env now rnd f) (content f)
            # VisionRequest vision_instruction (image_data_url env f) # rest"
    and cases: "case responses_create env vision_instruction (image_data_url env f) of
          Inl e \<Rightarrow> r0 = Inl e \<and> s' = s \<and> rest = []
        | Inr d \<Rightarrow>
            if startsWith d refusal_prefix
            then r0 = Inr (Response 400
                   [(''error'', JStr ''Our AI system could not properly analyze your image. Please try a different image with clearer content.''),
                    (''details'', JStr ''Vision model unable to process image details'')])
                 \<and> s' = s \<and> rest = [CleanupLater (tempFilePath env now rnd f)]
            else generate_and_settle env now req (tempFilePath env now rnd f)
                   (fileUrl env now rnd req f) d s = (r0, s', rest)"
    by blast
  from gen log log0 have in_rest: "ImagesGenerate p \<in> set rest" by simp
  with cases obtain d where d: "responses_create env vision_instruction (image_data_url env f) = Inr d"
    and g: "generate_and_settle env now req (tempFilePath env now rnd f)
                   (fileUrl env now rnd req f) d s = (r0, s', rest)"
    by (auto split: sum.splits if_splits)
  let ?P = "compose_prompt d (field_val req ''style'') (field_val req ''prompt'')"
  from generate_prompt [OF g] obtain rest' where
    rest: "rest = (if MAX_PROMPT_LENGTH < length ?P
                   then [ConsoleLog (''Prompt too long ('' @ show_nat (length ?P)
                     @ '' chars). Truncating to '' @ show_nat MAX_PROMPT_LENGTH @ '' chars.'')] else [])
                  @ ImagesGenerate ?P # rest'"
    and none: "\<forall>q. ImagesGenerate q \<notin> set rest'"
    by blast
  from in_rest rest none have p: "p = ?P" by (auto split: if_splits)
  have "MAX_PROMPT_LENGTH < length p \<longrightarrow>
            ConsoleLog (''Prompt too long ('' @ show_nat (length p)
              @ '' chars). Truncating to '' @ show_nat MAX_PROMPT_LENGTH @ '' chars.'') \<in> set log"
    using p rest log log0 by simp
  with up d p show ?thesis by blast
qed

text \<open>A description of 1000 characters: the prompt sent is longer than 950 and the notice is logged.\<close>

theorem upload_prompt_unmodified_witness:
  "MAX_PROMPT_LENGTH < length (compose_prompt long_description (JStr ''ghibli-fantasy'') (JStr ''add a red kite''))
   \<and> ImagesGenerate (compose_prompt long_description (JStr ''ghibli-fantasy'') (JStr ''add a red kite''))
       \<in> set (snd (snd (upload_image long_env 1000 7 demo_upload (store_with (JNum 1)))))
   \<and> ConsoleLog (''Prompt too long (''
         @ show_nat (length (compose_prompt long_description (JStr ''ghibli-fantasy'') (JStr ''add a red kite'')))
         @ '' chars). Truncating to '' @ show_nat MAX_PROMPT_LENGTH @ '' chars.'')
       \<in> set (snd (snd (upload_image long_env 1000 7 demo_upload (store_with (JNum 1)))))"
proof -
  let ?X = "upload_image long_env 1000 7 demo_upload (store_with (JNum 1))"
  let ?P = "compose_prompt long_description (JStr ''ghibli-fantasy'') (JStr ''add a red kite'')"
  have gen: "ImagesGenerate ?P \<in> set (snd (snd ?X))"
    using long_prompt_long long_description_accepted
    by (simp add: run_defs long_env_def demo_env_def)
  from upload_prompt_unmodified [OF run_split gen] long_prompt_long gen
  show ?thesis by blast
qed

subsection \<open>Image upload: refusal of the vision model\<close>

text \<open>
  C7. When the description returned for the handler's vision request starts with the
  refusal prefix, the answer is the 400 "could not analyze" error, the image model is not
  called, and the store is as before: no credit is deducted.
\<close>

theorem upload_vision_refusal:
  assumes run: "upload_image env now rnd req s = (r, s', log)"
    and asked: "VisionRequest t u \<in> set log"
    and answer: "responses_create env t u = Inr d"
    and refused: "startsWith d refusal_prefix"
  shows "r = Inr (Response 400
              [(''error'', JStr ''Our AI system could not properly analyze your image. Please try a different image with clearer content.''),
               (''details'', JStr ''Vision model unable to process image details'')])
       \<and> s' = s
       \<and> (\<forall>p. ImagesGenerate p \<notin> set log)"
proof -
  from upload_run [OF run] asked
  obtain f log0 where log: "log = Firebase ''getUserById'' # log0"
    and tr: "(\<exists>x. transform env now rnd req f s = (Inr x, s', log0) \<and> r = Inr x)
             \<or> (\<exists>e. transform env now rnd req f s = (Inl e, s', log0)
                  \<and> r = Inl (Exn (JStr ''cleanupTempFiles is not defined'') JUndefined))"
    by auto
  then obtain r0 where tr0: "transform env now rnd req f s = (r0, s', log0)" by blast
  from transform_run [OF tr0]
  obtain rest where log0: "log0 = WriteFile (tempFilePath env now rnd f) (content f)
            # VisionRequest vision_instruction (image_data_url env f) # rest"
    and cases: "case responses_create env vision_instruction (image_data_url env f) of
          Inl e \<Rightarrow> r0 = Inl e \<and> s' = s \<and> rest = []
        | Inr d \<Rightarrow>
            if startsWith d refusal_prefix
            then r0 = Inr (Response 400
                   [(''error'', JStr ''Our AI system could not properly analyze your image. Please try a different image with clearer content.''),
                    (''details'', JStr ''Vision model unable to process image details'')])
                 \<and> s' = s \<and> rest = [CleanupLater (tempFilePath env now rnd f)]
            else generate_and_settle env now req (tempFilePath env now rnd f)
                   (fileUrl env now rnd req f) d s = (r0, s', rest)"
    by blast
  have no_vision: "VisionRequest t u \<notin> set rest"
    using cases generate_no_vision
    by (cases "responses_create env vision_instruction (image_data_url env f)")
       (auto split: if_splits)
  with asked log log0 have tu: "t = vision_instruction" "u = image_data_url env f" by auto
  with answer refused cases
  have r0: "r0 = Inr (Response 400
                   [(''error'', JStr ''Our AI system could not properly analyze your image. Please try a different image with clearer content.''),
                    (''details'', JStr ''Vision model unable to process image details'')])"
    and s: "s' = s" and rest: "rest = [CleanupLater (tempFilePath env now rnd f)]"
    by simp_all
  from tr tr0 r0 have "r = r0" by auto
  with r0 s rest log log0 show ?thesis by simp
qed

text \<open>The vision model refuses: the request ends with 400 and the store as it was.\<close>

theorem upload_vision_refusal_witness:
  "VisionRequest vision_instruction (image_data_url refusing_env demo_file)
       \<in> set (snd (snd (upload_image refusing_env 1000 7 demo_upload (store_with (JNum 1)))))
   \<and> responses_create refusing_env vision_instruction (image_data_url refusing_env demo_file)
       = Inr (refusal_prefix @ ''.'')
   \<and> startsWith (refusal_prefix @ ''.'') refusal_prefix
   \<and> fst (upload_image refusing_env 1000 7 demo_upload (store_with (JNum 1))) =
       Inr (Response 400
              [(''error'', JStr ''Our AI system could not properly analyze your image. Please try a different image with clearer content.''),
               (''details'', JStr ''Vision model unable to process image details'')])
   \<and> fst (snd (upload_image refusing_env 1000 7 demo_upload (store_with (JNum 1)))) = store_with (JNum 1)"
proof -
  let ?X = "upload_image refusing_env 1000 7 demo_upload (store_with (JNum 1))"
  have refused: "startsWith (refusal_prefix @ ''.'') refusal_prefix"
    by (simp add: startsWith_def)
  have answer: "responses_create refusing_env vision_instruction (image_data_url refusing_env demo_file)
       = Inr (refusal_prefix @ ''.'')"
    by (simp add: refusing_env_def)
  have asked: "VisionRequest vision_instruction (image_data_url refusing_env demo_file) \<in> set (snd (snd ?X))"
    using refused by (simp add: run_defs refusing_env_def demo_env_def)
  from upload_vision_refusal [OF run_split asked answer refused] asked answer refused
  show ?thesis by blast
qed

subsection \<open>Image upload: settlement\<close>





text \<open>
  A balance need not be a number: \<^verbatim>\<open>/api/verify-payment\<close> adds the request's \<^verbatim>\<open>credits\<close> as
  they come, and for the string \<^verbatim>\<open>"5"\<close> and a new user it stores \<^verbatim>\<open>0 + "5"\<close>, the string
  \<^verbatim>\<open>"05"\<close>.
\<close>

lemma string_balance_reachable:
  "balance (fst (snd (verify_payment demo_env 5 string_payment empty_store))) ''u1'' = JStr ''05''"
  by (simp add: verify_payment_def io_defs Let_def getUserById_def createOrUpdateUser_def
      updateUserCredits_def saveTransaction_def storable_def demo_doc js_or_def js_add_def
      get_prop_Cons get_prop_Nil get_put_prop balance_def
      demo_env_def string_payment_def empty_store_def show_int_def show_nat.simps digit_char_def)


end
